theory Spec2Isabelle
  imports Complex_Main "HOL-Library.Sublist"
begin

section \<open>The cart controller of \<open>src/index.ts\<close>\<close>

text \<open>
  The script keeps one array \<open>cart\<close> of \<open>CartItem\<close> objects, closed over by the click
  handlers of the product grid, of the cart panel and of the start-new-order button.
  Every handler reads the page (product cards, modal elements), changes \<open>cart\<close> and
  rewrites parts of the page. The model threads one record \<open>page\<close> holding the cart and
  the parts of the document the handlers read or write.

  Strings are lists of 8-bit characters. Markup written through \<open>innerHTML\<close> is kept as
  the values interpolated into the template, in the template's order, not as text.
\<close>

subsection \<open>Strings\<close>

text \<open>
  \<open>String.prototype.trim\<close> removes white space and line terminators from both ends.
  Of the characters JavaScript counts as such, these are the ones below 256: TAB, LF, VT,
  FF, CR, SP and NBSP.
\<close>

definition is_space :: "char \<Rightarrow> bool" where
  "is_space c = (of_char c \<in> {9, 10, 11, 12, 13, 32, 160 :: nat})"

definition trim :: "string \<Rightarrow> string" where
  "trim s = rev (dropWhile is_space (rev (dropWhile is_space s)))"

text \<open>
  \<open>s.replace(pat, rep)\<close> with a string pattern: the first occurrence of \<open>pat\<close> in \<open>s\<close>,
  scanning from the left, is replaced; a string without an occurrence is returned as it is.
  (The source only calls it with the replacement \<open>''\<close>, which holds no \<open>$\<close> pattern.)
\<close>

fun replace_first :: "string \<Rightarrow> string \<Rightarrow> string \<Rightarrow> string" where
  "replace_first pat rep [] = (if pat = [] then rep else [])"
| "replace_first pat rep (c # cs) =
     (if prefix pat (c # cs) then rep @ drop (length pat) (c # cs)
      else c # replace_first pat rep cs)"

subsection \<open>Numbers\<close>

text \<open>
  \<open>price\<close>, the running totals and the results of \<open>parseFloat\<close> are JavaScript numbers
  (IEEE binary64). The handlers only use them through the operations below, so the model
  takes the number type \<open>'f\<close> and these operations as a parameter: every theorem holds for
  whatever the operations compute, rounding included.

  \<^item> \<open>n_zero\<close>: the literal \<open>0\<close>;
  \<^item> \<open>n_add\<close>, \<open>n_mul\<close>: \<open>+\<close> and \<open>*\<close> on numbers;
  \<^item> \<open>n_of_int\<close>: a quantity as a number (quantities are kept as integers, see below);
  \<^item> \<open>n_truthy\<close>: \<open>ToBoolean\<close>, false on \<open>0\<close>, \<open>-0\<close> and \<open>NaN\<close>;
  \<^item> \<open>n_toFixed2\<close>: \<open>x.toFixed(2)\<close>;
  \<^item> \<open>n_parseFloat\<close>: \<open>parseFloat\<close>, with \<open>NaN\<close> one of the values of \<open>'f\<close>.
\<close>

record 'f number_ops =
  n_zero :: 'f
  n_add :: "'f \<Rightarrow> 'f \<Rightarrow> 'f"
  n_mul :: "'f \<Rightarrow> 'f \<Rightarrow> 'f"
  n_of_int :: "int \<Rightarrow> 'f"
  n_truthy :: "'f \<Rightarrow> bool"
  n_toFixed2 :: "'f \<Rightarrow> string"
  n_parseFloat :: "string \<Rightarrow> 'f"

subsection \<open>Data model\<close>

text \<open>
  \<open>type CartItem = { id; name; price; quantity; image? }\<close>. The fields \<open>id\<close> and
  \<open>image\<close> are written \<open>item_id\<close> and \<open>item_image\<close> (both names are taken in HOL).
  \<open>quantity\<close> starts at 1 and only changes by \<open>++\<close> and \<open>--\<close>, so it is an integer; it is
  modelled as \<open>int\<close> (a JavaScript number stops counting at \<open>2^53\<close>, which no sequence of
  clicks reaches). \<open>image\<close> is \<open>undefined\<close> when it is \<open>None\<close>.
\<close>

record 'f CartItem =
  item_id :: string
  name :: string
  price :: 'f
  quantity :: int
  item_image :: "string option"

text \<open>
  A product card (an element of class \<open>card\<close>), as far as the script looks at it:
  \<^item> \<open>cart_name\<close>: the \<open>textContent\<close> of its \<open>.cart-name\<close> element, \<open>None\<close> without one;
  \<^item> \<open>card_price\<close>: the \<open>textContent\<close> of its \<open>.card-price\<close> element, \<open>None\<close> without one;
  \<^item> \<open>img_src\<close>: the \<open>src\<close> of its \<open>img\<close> element (\<open>''\<close> when the element has no source),
    \<open>None\<close> without one;
  \<^item> \<open>button_display\<close>: \<open>style.display\<close> of its \<open>.button\<close> element, \<open>None\<close> without one;
  \<^item> \<open>quantity_selector\<close>: its \<open>.quantity-selector\<close> element, \<open>None\<close> without one;
    \<open>Some qt\<close> holds the number shown by the selector's \<open>.quantity-text\<close> element
    (\<open>qt = None\<close> when the selector has no such element).
  \<open>querySelector\<close> returns the first match, so a card is taken to hold at most one
  element of each kind.
\<close>

record card =
  cart_name :: "string option"
  card_price :: "string option"
  img_src :: "string option"
  button_display :: "string option"
  quantity_selector :: "int option option"

text \<open>One \<open>.cart-item\<close> row of the cart panel: the values the template interpolates.\<close>

record panel_row =
  row_name :: string
  row_quantity :: int
  row_price_per :: string
  row_price_total :: string
  row_data_id :: string

text \<open>
  What the cart panel shows: the page's own markup before the first rendering, the
  empty-state message (\<open>Your Cart (0)\<close>, no rows, no total), or the heading with the item
  count, the rows and the order total.
\<close>

datatype panel_view =
    PageMarkup
  | EmptyCart
  | CartView int "panel_row list" string

text \<open>One \<open>.modal-cart-item\<close> row of the confirmation modal.\<close>

record modal_row =
  m_image :: string
  m_name :: string
  m_quantity :: int
  m_price_per :: string
  m_item_total :: string

text \<open>
  The state: the closure variable \<open>cart\<close>, the product cards of the document in document
  order (\<open>document.querySelectorAll('.card')\<close>), the cart panel, and the modal overlay:
  \<^item> \<open>modal_summary\<close>: the rows in its \<open>.modal-order-summary\<close> element, \<open>None\<close> without one;
  \<^item> \<open>modal_total\<close>: the text of its \<open>.modal-total-price\<close> element, \<open>None\<close> without one;
  \<^item> \<open>modal_display\<close>: \<open>modalOverlay.style.display\<close>.
\<close>

record 'f page =
  cart :: "'f CartItem list"
  cards :: "card list"
  panel :: panel_view
  modal_summary :: "modal_row list option"
  modal_total :: "string option"
  modal_display :: string

subsection \<open>Rendering\<close>

text \<open>
  \<open>updateCart\<close>: for an empty cart the empty-state markup is written (into the panel's
  \<open>.cart\<close> element when it has one, into the panel itself otherwise; the view does not
  tell the two apart) and the function returns. Otherwise the callback of \<open>cart.map\<close> adds
  to \<open>totalItems\<close> and \<open>totalPrice\<close> and returns the row; \<open>updateCart_loop\<close> is that loop
  with both counters and the rows so far.
\<close>

definition cart_item_row :: "'f number_ops \<Rightarrow> 'f CartItem \<Rightarrow> panel_row" where
  "cart_item_row ops item =
     \<lparr> row_name = name item,
       row_quantity = quantity item,
       row_price_per = n_toFixed2 ops (price item),
       row_price_total = n_toFixed2 ops (n_mul ops (price item) (n_of_int ops (quantity item))),
       row_data_id = item_id item \<rparr>"

fun updateCart_loop ::
  "'f number_ops \<Rightarrow> 'f CartItem list \<Rightarrow> int \<Rightarrow> 'f \<Rightarrow> panel_row list
     \<Rightarrow> int \<times> 'f \<times> panel_row list" where
  "updateCart_loop ops [] totalItems totalPrice rows = (totalItems, totalPrice, rows)"
| "updateCart_loop ops (item # items) totalItems totalPrice rows =
     updateCart_loop ops items
       (totalItems + quantity item)
       (n_add ops totalPrice (n_mul ops (price item) (n_of_int ops (quantity item))))
       (rows @ [cart_item_row ops item])"

definition updateCart :: "'f number_ops \<Rightarrow> 'f CartItem list \<Rightarrow> panel_view" where
  "updateCart ops c =
     (if length c = 0 then EmptyCart
      else case updateCart_loop ops c 0 (n_zero ops) [] of
             (totalItems, totalPrice, rows) \<Rightarrow>
               CartView totalItems rows (''$'' @ n_toFixed2 ops totalPrice))"

text \<open>
  \<open>showConfirmationModal\<close>: returns at once when the summary or the total element is
  missing; otherwise one row per entry, the total, and \<open>display = 'flex'\<close>.
\<close>

definition modal_item_row :: "'f number_ops \<Rightarrow> 'f CartItem \<Rightarrow> modal_row" where
  "modal_item_row ops item =
     (let itemTotal = n_mul ops (price item) (n_of_int ops (quantity item))
      in \<lparr> m_image = (case item_image item of None \<Rightarrow> '''' | Some u \<Rightarrow> u),
           m_name = name item,
           m_quantity = quantity item,
           m_price_per = n_toFixed2 ops (price item),
           m_item_total = n_toFixed2 ops itemTotal \<rparr>)"

fun modal_loop ::
  "'f number_ops \<Rightarrow> 'f CartItem list \<Rightarrow> 'f \<Rightarrow> modal_row list \<Rightarrow> 'f \<times> modal_row list" where
  "modal_loop ops [] totalPrice rows = (totalPrice, rows)"
| "modal_loop ops (item # items) totalPrice rows =
     (let itemTotal = n_mul ops (price item) (n_of_int ops (quantity item))
      in modal_loop ops items (n_add ops totalPrice itemTotal) (rows @ [modal_item_row ops item]))"

definition showConfirmationModal :: "'f number_ops \<Rightarrow> 'f page \<Rightarrow> 'f page" where
  "showConfirmationModal ops s =
     (if modal_summary s = None \<or> modal_total s = None then s
      else case modal_loop ops (cart s) (n_zero ops) [] of
             (totalPrice, rows) \<Rightarrow>
               s\<lparr> modal_summary := Some rows,
                  modal_total := Some (''$'' @ n_toFixed2 ops totalPrice),
                  modal_display := ''flex'' \<rparr>)"

subsection \<open>Button state of a product card\<close>

definition updateButtonState :: "card \<Rightarrow> int \<Rightarrow> card" where
  "updateButtonState productCard q =
     (case quantity_selector productCard of
        None \<Rightarrow>
          productCard\<lparr> button_display := map_option (\<lambda>_. ''none'') (button_display productCard),
                        quantity_selector := Some (Some q) \<rparr>
      | Some qt \<Rightarrow>
          productCard\<lparr> quantity_selector := Some (map_option (\<lambda>_. q) qt) \<rparr>)"

definition resetButtonState :: "card \<Rightarrow> card" where
  "resetButtonState productCard =
     productCard\<lparr> quantity_selector := None,
                   button_display := map_option (\<lambda>_. ''block'') (button_display productCard) \<rparr>"

text \<open>The trimmed text of the card's \<open>.cart-name\<close> element (\<open>?.\<close> gives \<open>undefined\<close>).\<close>

definition card_id :: "card \<Rightarrow> string option" where
  "card_id c = map_option trim (cart_name c)"

text \<open>\<open>findProductCardById\<close>: the position of the first card whose trimmed name is the id.\<close>

fun findProductCardById :: "card list \<Rightarrow> string \<Rightarrow> nat option" where
  "findProductCardById [] productId = None"
| "findProductCardById (c # cs) productId =
     (if card_id c = Some productId then Some 0
      else map_option Suc (findProductCardById cs productId))"

subsection \<open>The cart operations\<close>

text \<open>
  \<open>cart.find\<close> returns the first entry with the id, and \<open>itemInCart.quantity++\<close> writes to
  that object, which the array still holds: \<open>set_quantity\<close> is the array after the write.
\<close>

fun set_quantity :: "string \<Rightarrow> int \<Rightarrow> 'f CartItem list \<Rightarrow> 'f CartItem list" where
  "set_quantity cid q [] = []"
| "set_quantity cid q (item # items) =
     (if item_id item = cid then item\<lparr>quantity := q\<rparr> # items
      else item # set_quantity cid q items)"

text \<open>
  The two constants \<open>addToCart\<close> computes from the card before it pushes the entry:
  \<open>productPrice = parseFloat(productPriceText.replace('$', '')) || 0\<close>, where the text is
  \<open>''\<close> without a \<open>.card-price\<close> element, and
  \<open>productImage = imgEl?.src ? imgEl.src.replace('-desktop', '') : undefined\<close>.
\<close>

definition productPrice :: "'f number_ops \<Rightarrow> card \<Rightarrow> 'f" where
  "productPrice ops productCard =
     (let productPriceText = (case card_price productCard of None \<Rightarrow> [] | Some t \<Rightarrow> t);
          parsed = n_parseFloat ops (replace_first ''$'' [] productPriceText)
      in if n_truthy ops parsed then parsed else n_zero ops)"

definition productImage :: "card \<Rightarrow> string option" where
  "productImage productCard =
     (case img_src productCard of
        None \<Rightarrow> None
      | Some src \<Rightarrow> if src = [] then None else Some (replace_first ''-desktop'' [] src))"

definition addToCart :: "'f number_ops \<Rightarrow> 'f page \<Rightarrow> card \<Rightarrow> 'f page" where
  "addToCart ops s productCard =
     (case card_id productCard of
        None \<Rightarrow> s
      | Some cid \<Rightarrow>
          if cid = [] then s
          else
            let cart' = cart s @
                  [\<lparr> item_id = cid, name = cid, price = productPrice ops productCard,
                      quantity = 1, item_image = productImage productCard \<rparr>]
            in s\<lparr> cart := cart', panel := updateCart ops cart' \<rparr>)"

text \<open>
  The click handler of the product grid. \<open>target\<close> is the class list of the closest
  \<open>button\<close> of the click target (\<open>None\<close> without one) and \<open>card_ix\<close> the position of that
  button's closest \<open>.card\<close> (\<open>None\<close> without one).
\<close>

definition productGrid_click ::
  "'f number_ops \<Rightarrow> 'f page \<Rightarrow> string list option \<Rightarrow> nat option \<Rightarrow> 'f page" where
  "productGrid_click ops s target card_ix =
     (case target of
        None \<Rightarrow> s
      | Some classList \<Rightarrow>
     (case card_ix of
        None \<Rightarrow> s
      | Some i \<Rightarrow>
          if \<not> i < length (cards s) then s
          else
     (let card = cards s ! i in
      case card_id card of
        None \<Rightarrow> s
      | Some cardId \<Rightarrow>
          if cardId = [] then s
          else
     (let itemInCart = find (\<lambda>item. item_id item = cardId) (cart s) in
      if ''increment-btn'' \<in> set classList then
        (case itemInCart of
           None \<Rightarrow> s
         | Some item \<Rightarrow>
             let q = quantity item + 1;
                 cart' = set_quantity cardId q (cart s)
             in s\<lparr> cart := cart',
                    cards := (cards s)[i := updateButtonState card q],
                    panel := updateCart ops cart' \<rparr>)
      else if ''decrement-btn'' \<in> set classList then
        (case itemInCart of
           None \<Rightarrow> s
         | Some item \<Rightarrow>
             let q = quantity item - 1 in
             if q = 0 then
               let cart' = filter (\<lambda>cartItem. item_id cartItem \<noteq> cardId) (cart s)
               in s\<lparr> cart := cart',
                      cards := (cards s)[i := resetButtonState card],
                      panel := updateCart ops cart' \<rparr>
             else
               let cart' = set_quantity cardId q (cart s)
               in s\<lparr> cart := cart',
                      cards := (cards s)[i := updateButtonState card q],
                      panel := updateCart ops cart' \<rparr>)
      else
        (case itemInCart of
           Some item \<Rightarrow> s
         | None \<Rightarrow>
             let s' = addToCart ops s card
             in s'\<lparr> cards := (cards s')[i := updateButtonState card 1] \<rparr>)))))"

text \<open>
  The click handler of the cart panel. \<open>removeBtn\<close> is the \<open>data-id\<close> of the closest
  \<open>.remove-item-btn\<close> of the click target (\<open>None\<close> without such a control, \<open>Some None\<close> when
  the control has no \<open>data-id\<close>); \<open>classList\<close> is the class list of the click target.
\<close>

definition cartSection_click ::
  "'f number_ops \<Rightarrow> 'f page \<Rightarrow> string option option \<Rightarrow> string list \<Rightarrow> 'f page" where
  "cartSection_click ops s removeBtn classList =
     (case removeBtn of
        Some dataId \<Rightarrow>
          (case dataId of
             None \<Rightarrow> s
           | Some productId \<Rightarrow>
               if productId = [] then s
               else
                 let productInGrid = findProductCardById (cards s) productId;
                     cart' = filter (\<lambda>item. item_id item \<noteq> productId) (cart s);
                     cards' = (case productInGrid of
                                 None \<Rightarrow> cards s
                               | Some i \<Rightarrow> (cards s)[i := resetButtonState (cards s ! i)])
                 in s\<lparr> cart := cart', cards := cards', panel := updateCart ops cart' \<rparr>)
      | None \<Rightarrow>
          if ''confirm-order-btn'' \<in> set classList then showConfirmationModal ops s else s)"

definition resetOrder :: "'f number_ops \<Rightarrow> 'f page \<Rightarrow> 'f page" where
  "resetOrder ops s =
     s\<lparr> modal_display := ''none'',
        cart := [],
        cards := map resetButtonState (cards s),
        panel := updateCart ops [] \<rparr>"

text \<open>The three listeners the script installs, as events, and the controller as a step.\<close>

datatype event =
    GridClick "string list option" "nat option"
  | PanelClick "string option option" "string list"
  | StartNewOrder

fun step :: "'f number_ops \<Rightarrow> 'f page \<Rightarrow> event \<Rightarrow> 'f page" where
  "step ops s (GridClick target card_ix) = productGrid_click ops s target card_ix"
| "step ops s (PanelClick removeBtn classList) = cartSection_click ops s removeBtn classList"
| "step ops s StartNewOrder = resetOrder ops s"

definition run :: "'f number_ops \<Rightarrow> 'f page \<Rightarrow> event list \<Rightarrow> 'f page" where
  "run ops s evs = foldl (step ops) s evs"

subsection \<open>What the specification speaks of\<close>

text \<open>
  The item count and the grand total as the specification words them: the sum of the
  quantities, and the sum of \<open>price \<times> quantity\<close> over the entries. Addition of numbers
  is not associative, so the order is part of the sum: from \<open>0\<close>, in cart order.
\<close>

definition total_items :: "'f CartItem list \<Rightarrow> int" where
  "total_items c = sum_list (map quantity c)"

definition grand_total :: "'f number_ops \<Rightarrow> 'f CartItem list \<Rightarrow> 'f" where
  "grand_total ops c =
     foldl (\<lambda>t item. n_add ops t (n_mul ops (price item) (n_of_int ops (quantity item))))
       (n_zero ops) c"

text \<open>What a panel view shows as item count, as order total and as rows.\<close>

fun panel_count :: "panel_view \<Rightarrow> int option" where
  "panel_count PageMarkup = None"
| "panel_count EmptyCart = Some 0"
| "panel_count (CartView n rows t) = Some n"

fun panel_total :: "panel_view \<Rightarrow> string option" where
  "panel_total PageMarkup = None"
| "panel_total EmptyCart = None"
| "panel_total (CartView n rows t) = Some t"

fun panel_rows :: "panel_view \<Rightarrow> panel_row list" where
  "panel_rows PageMarkup = []"
| "panel_rows EmptyCart = []"
| "panel_rows (CartView n rows t) = rows"

text \<open>The invariant of the cart: quantities from 1, at most one entry per id.\<close>

definition cart_ok :: "'f CartItem list \<Rightarrow> bool" where
  "cart_ok c = ((\<forall>item \<in> set c. 1 \<le> quantity item) \<and> distinct (map item_id c))"

text \<open>
  The price text and the image URL as the specification words them: a leading currency
  symbol stripped, a \<open>-desktop\<close> suffix removed.
\<close>

definition strip_leading_currency :: "string \<Rightarrow> string" where
  "strip_leading_currency t = (case t of [] \<Rightarrow> [] | c # r \<Rightarrow> if c = CHR ''$'' then r else t)"

definition remove_desktop_suffix :: "string \<Rightarrow> string" where
  "remove_desktop_suffix u =
     (if suffix ''-desktop'' u then take (length u - length ''-desktop'') u else u)"

text \<open>
  The stored price and the stored image as the specification words them: the price text
  with a leading currency symbol stripped, parsed, and \<open>0\<close> when that is not a number;
  the image source with a \<open>-desktop\<close> suffix removed, absent without a source.
\<close>

definition spec_productPrice :: "'f number_ops \<Rightarrow> string \<Rightarrow> 'f" where
  "spec_productPrice ops t =
     (let parsed = n_parseFloat ops (strip_leading_currency t)
      in if n_truthy ops parsed then parsed else n_zero ops)"

definition spec_productImage :: "string option \<Rightarrow> string option" where
  "spec_productImage src =
     (case src of
        None \<Rightarrow> None
      | Some u \<Rightarrow> if u = [] then None else Some (remove_desktop_suffix u))"

subsection \<open>Exact decimal numbers, for the examples\<close>

text \<open>
  One interpretation of the number operations, used to run the handlers on examples: a
  number is \<open>NaN\<close> or an exact rational. It computes what JavaScript computes wherever
  binary64 is exact on the operands and results (the prices and totals of the examples
  below); it does not round, and it has no infinities and no negative zero.
  \<open>exact_parseFloat\<close> follows \<open>parseFloat\<close>: leading white space is skipped, then the
  longest prefix that is a decimal literal (sign, digits, fraction, exponent) is read,
  and \<open>NaN\<close> is returned when there is none. \<open>exact_toFixed2\<close> is \<open>toFixed(2)\<close> below
  \<open>10^21\<close>: the nearest number of hundredths, the larger one on a tie.
\<close>

datatype jsnum = NaN | Num rat

definition is_digit :: "char \<Rightarrow> bool" where
  "is_digit c = (48 \<le> (of_char c :: nat) \<and> (of_char c :: nat) \<le> 57)"

definition digits_val :: "string \<Rightarrow> nat" where
  "digits_val ds = foldl (\<lambda>n c. 10 * n + (of_char c - 48)) 0 ds"

definition pow10 :: "int \<Rightarrow> rat" where
  "pow10 k = (if 0 \<le> k then 10 ^ nat k else 1 / 10 ^ nat (- k))"

definition exponent_part :: "string \<Rightarrow> int" where
  "exponent_part u =
     (case u of
        [] \<Rightarrow> 0
      | c # r \<Rightarrow>
          if c = CHR ''e'' \<or> c = CHR ''E'' then
            (case r of
               [] \<Rightarrow> 0
             | d # r' \<Rightarrow>
                 if d = CHR ''-'' then - int (digits_val (takeWhile is_digit r'))
                 else if d = CHR ''+'' then int (digits_val (takeWhile is_digit r'))
                 else int (digits_val (takeWhile is_digit r)))
          else 0)"

definition exact_parseFloat :: "string \<Rightarrow> jsnum" where
  "exact_parseFloat s =
     (let t = dropWhile is_space s;
          neg = (t \<noteq> [] \<and> hd t = CHR ''-'');
          u = (if t \<noteq> [] \<and> (hd t = CHR ''-'' \<or> hd t = CHR ''+'') then tl t else t);
          ip = takeWhile is_digit u;
          u1 = dropWhile is_digit u;
          dot = (u1 \<noteq> [] \<and> hd u1 = CHR ''.'');
          fp = (if dot then takeWhile is_digit (tl u1) else []);
          u2 = (if dot then dropWhile is_digit (tl u1) else u1)
      in if ip = [] \<and> fp = [] then NaN
         else
           let v = rat_of_nat (digits_val (ip @ fp)) * pow10 (exponent_part u2 - int (length fp))
           in Num (if neg then - v else v))"

fun nat_digits :: "nat \<Rightarrow> string" where
  "nat_digits n =
     (if n < 10 then [char_of (48 + n)] else nat_digits (n div 10) @ [char_of (48 + n mod 10)])"

declare nat_digits.simps [simp del]

definition exact_toFixed2 :: "jsnum \<Rightarrow> string" where
  "exact_toFixed2 x =
     (case x of
        NaN \<Rightarrow> ''NaN''
      | Num q \<Rightarrow>
          let n = nat \<lfloor>\<bar>q\<bar> * 100 + 1 / 2\<rfloor>;
              ds = nat_digits n;
              padded = replicate (3 - length ds) (CHR ''0'') @ ds
          in (if q < 0 then ''-'' else []) @
             take (length padded - 2) padded @ ''.'' @ drop (length padded - 2) padded)"

definition exact_ops :: "jsnum number_ops" where
  "exact_ops =
     \<lparr> n_zero = Num 0,
       n_add = (\<lambda>x y. case (x, y) of (Num a, Num b) \<Rightarrow> Num (a + b) | _ \<Rightarrow> NaN),
       n_mul = (\<lambda>x y. case (x, y) of (Num a, Num b) \<Rightarrow> Num (a * b) | _ \<Rightarrow> NaN),
       n_of_int = (\<lambda>i. Num (rat_of_int i)),
       n_truthy = (\<lambda>x. case x of NaN \<Rightarrow> False | Num a \<Rightarrow> a \<noteq> 0),
       n_toFixed2 = exact_toFixed2,
       n_parseFloat = exact_parseFloat \<rparr>"

text \<open>
  The page of the examples: two product cards as the catalogue has them, nothing in the
  cart, the panel as the page's markup has it, and a modal with both of its elements.
\<close>

definition waffle_card :: card where
  "waffle_card =
     \<lparr> cart_name = Some ''Waffle'', card_price = Some ''$6.50'',
       img_src = Some ''images/image-waffle-desktop.jpg'',
       button_display = Some [], quantity_selector = None \<rparr>"

definition brulee_card :: card where
  "brulee_card =
     \<lparr> cart_name = Some '' Creme Brulee '', card_price = Some ''$7.00'',
       img_src = Some ''images/image-creme-brulee-desktop.jpg'',
       button_display = Some [], quantity_selector = None \<rparr>"

definition start_page :: "jsnum page" where
  "start_page =
     \<lparr> cart = [], cards = [waffle_card, brulee_card], panel = PageMarkup,
       modal_summary = Some [], modal_total = Some [], modal_display = ''none'' \<rparr>"

text \<open>
  The entries of the two products, and the page after two Waffles and one Creme Brulee
  were added (\<open>shop_page_reached\<close> below runs the clicks).
\<close>

definition waffle_item :: "int \<Rightarrow> jsnum CartItem" where
  "waffle_item q =
     \<lparr> item_id = ''Waffle'', name = ''Waffle'', price = Num (13 / 2), quantity = q,
       item_image = Some ''images/image-waffle.jpg'' \<rparr>"

definition brulee_item :: "int \<Rightarrow> jsnum CartItem" where
  "brulee_item q =
     \<lparr> item_id = ''Creme Brulee'', name = ''Creme Brulee'', price = Num 7, quantity = q,
       item_image = Some ''images/image-creme-brulee.jpg'' \<rparr>"

definition shop_page :: "jsnum page" where
  "shop_page =
     \<lparr> cart = [waffle_item 2, brulee_item 1],
       cards = [waffle_card\<lparr> button_display := Some ''none'', quantity_selector := Some (Some 2) \<rparr>,
                brulee_card\<lparr> button_display := Some ''none'', quantity_selector := Some (Some 1) \<rparr>],
       panel = updateCart exact_ops [waffle_item 2, brulee_item 1],
       modal_summary = Some [], modal_total = Some [], modal_display = ''none'' \<rparr>"

text \<open>
  Two cards with unusual texts: a price text whose \<open>$\<close> is not its first character, and an
  image URL that holds \<open>-desktop\<close> twice.
\<close>

definition refund_card :: card where
  "refund_card =
     \<lparr> cart_name = Some ''Refund'', card_price = Some ''-$6.50'', img_src = None,
       button_display = Some [], quantity_selector = None \<rparr>"

definition mirror_card :: card where
  "mirror_card =
     \<lparr> cart_name = Some ''Waffle'', card_price = Some ''$6.50'',
       img_src = Some ''https://my-desktop.example/img/waffle-desktop.jpg'',
       button_display = Some [], quantity_selector = None \<rparr>"

text \<open>The clicks of the examples: the plain add control, and the two quantity controls.\<close>

definition add_click :: "nat \<Rightarrow> event" where
  "add_click i = GridClick (Some [''button'']) (Some i)"

definition increment_click :: "nat \<Rightarrow> event" where
  "increment_click i = GridClick (Some [''increment-btn'']) (Some i)"

definition decrement_click :: "nat \<Rightarrow> event" where
  "decrement_click i = GridClick (Some [''decrement-btn'']) (Some i)"

definition remove_click :: "string \<Rightarrow> event" where
  "remove_click pid = PanelClick (Some (Some pid)) [''remove-item-btn'']"

definition confirm_click :: event where
  "confirm_click = PanelClick None [''confirm-order-btn'']"

section \<open>Properties\<close>

subsection \<open>The rendering loops\<close>

lemma updateCart_loop_eq:
  "updateCart_loop ops c n t rows =
     (n + sum_list (map quantity c),
      foldl (\<lambda>t item. n_add ops t (n_mul ops (price item) (n_of_int ops (quantity item)))) t c,
      rows @ map (cart_item_row ops) c)"
  by (induction c arbitrary: n t rows) (simp_all add: add.assoc)

lemma modal_loop_eq:
  "modal_loop ops c t rows =
     (foldl (\<lambda>t item. n_add ops t (n_mul ops (price item) (n_of_int ops (quantity item)))) t c,
      rows @ map (modal_item_row ops) c)"
  by (induction c arbitrary: t rows) (simp_all add: Let_def)

lemma updateCart_nonempty:
  "c \<noteq> [] \<Longrightarrow>
   updateCart ops c =
     CartView (total_items c) (map (cart_item_row ops) c)
       (''$'' @ n_toFixed2 ops (grand_total ops c))"
  by (simp add: updateCart_def updateCart_loop_eq total_items_def grand_total_def)

lemma updateCart_empty: "updateCart ops [] = EmptyCart"
  by (simp add: updateCart_def)

lemma showConfirmationModal_present:
  "modal_summary s \<noteq> None \<Longrightarrow> modal_total s \<noteq> None \<Longrightarrow>
   showConfirmationModal ops s =
     s\<lparr> modal_summary := Some (map (modal_item_row ops) (cart s)),
        modal_total := Some (''$'' @ n_toFixed2 ops (grand_total ops (cart s))),
        modal_display := ''flex'' \<rparr>"
  by (cases "modal_summary s"; cases "modal_total s")
     (simp_all add: showConfirmationModal_def modal_loop_eq grand_total_def)

subsection \<open>Replacing the first occurrence\<close>

lemma replace_first_absent: "\<not> sublist pat t \<Longrightarrow> replace_first pat rep t = t"
proof (induction t)
  case Nil
  then show ?case by (cases pat) simp_all
next
  case (Cons c cs)
  from Cons.prems have "\<not> prefix pat (c # cs)"
    using prefix_imp_sublist by blast
  moreover from Cons.prems have "\<not> sublist pat cs"
    by (simp add: sublist_Cons_right)
  ultimately show ?case using Cons.IH by simp
qed

lemma replace_first_first:
  "\<not> sublist pat (a @ butlast pat) \<Longrightarrow> replace_first pat rep (a @ pat @ b) = a @ rep @ b"
proof (induction a)
  case Nil
  then have "pat \<noteq> []" by auto
  then obtain p ps where pat: "pat = p # ps" by (cases pat) auto
  then show ?case by simp
next
  case (Cons c a)
  have np: "\<not> prefix pat (c # a @ pat @ b)"
  proof
    assume pre: "prefix pat (c # a @ pat @ b)"
    from Cons.prems have ne: "pat \<noteq> []" by auto
    have eq: "c # a @ pat @ b = ((c # a) @ butlast pat) @ (last pat # b)"
      using ne by simp
    from pre have "prefix pat (((c # a) @ butlast pat) @ (last pat # b))"
      by (simp only: eq)
    then have "prefix pat ((c # a) @ butlast pat) \<or>
        (\<exists>us. pat = ((c # a) @ butlast pat) @ us \<and> prefix us (last pat # b))"
      by (simp only: prefix_append)
    then have "prefix pat ((c # a) @ butlast pat)"
    proof
      assume "prefix pat ((c # a) @ butlast pat)"
      then show ?thesis .
    next
      assume "\<exists>us. pat = ((c # a) @ butlast pat) @ us \<and> prefix us (last pat # b)"
      then obtain us where us: "pat = ((c # a) @ butlast pat) @ us" by blast
      then have "length pat = length ((c # a) @ butlast pat) + length us"
        by (metis length_append)
      moreover from ne have "0 < length pat" by simp
      ultimately have "us = []" by simp
      with us show ?thesis by simp
    qed
    then have "sublist pat ((c # a) @ butlast pat)" by (rule prefix_imp_sublist)
    with Cons.prems show False by simp
  qed
  from Cons.prems have "\<not> sublist pat (a @ butlast pat)"
    by (simp add: sublist_Cons_right)
  from Cons.IH[OF this] np show ?case by simp
qed

lemma replace_first_char_absent: "c \<notin> set t \<Longrightarrow> replace_first [c] rep t = t"
  by (induction t) auto

lemma replace_first_char_first: "c \<notin> set a \<Longrightarrow> replace_first [c] rep (a @ c # b) = a @ rep @ b"
  by (induction a) auto

subsection \<open>Finding and updating an entry\<close>

lemma set_quantity_ids: "map item_id (set_quantity cid q c) = map item_id c"
  by (induction c) simp_all

lemma set_quantity_split:
  "\<forall>x \<in> set xs. item_id x \<noteq> cid \<Longrightarrow> item_id item = cid \<Longrightarrow>
   set_quantity cid q (xs @ item # ys) = xs @ item\<lparr>quantity := q\<rparr> # ys"
  by (induction xs) simp_all

lemma find_split:
  "\<forall>x \<in> set xs. item_id x \<noteq> cid \<Longrightarrow> item_id item = cid \<Longrightarrow>
   find (\<lambda>x. item_id x = cid) (xs @ item # ys) = Some item"
  by (induction xs) simp_all

lemma find_None_iff_ids: "find (\<lambda>x. item_id x = cid) c = None \<longleftrightarrow> (\<forall>x \<in> set c. item_id x \<noteq> cid)"
  by (induction c) simp_all

lemma find_Some_split:
  "find (\<lambda>x. item_id x = cid) c = Some item \<Longrightarrow>
   \<exists>xs ys. c = xs @ item # ys \<and> (\<forall>x \<in> set xs. item_id x \<noteq> cid) \<and> item_id item = cid"
proof (induction c)
  case Nil
  then show ?case by simp
next
  case (Cons a c)
  show ?case
  proof (cases "item_id a = cid")
    case True
    with Cons.prems have "a = item" by simp
    with True have "a # c = [] @ item # c \<and> (\<forall>x \<in> set []. item_id x \<noteq> cid) \<and> item_id item = cid"
      by simp
    then show ?thesis by blast
  next
    case False
    with Cons.prems have "find (\<lambda>x. item_id x = cid) c = Some item" by simp
    from Cons.IH[OF this] obtain xs ys where
      "c = xs @ item # ys" "\<forall>x \<in> set xs. item_id x \<noteq> cid" "item_id item = cid" by blast
    with False have "a # c = (a # xs) @ item # ys \<and> (\<forall>x \<in> set (a # xs). item_id x \<noteq> cid) \<and> item_id item = cid"
      by simp
    then show ?thesis by blast
  qed
qed

subsection \<open>What each click does\<close>

lemma card_id_updateButtonState: "card_id (updateButtonState c q) = card_id c"
  by (simp add: card_id_def updateButtonState_def split: option.splits)

lemma card_id_resetButtonState: "card_id (resetButtonState c) = card_id c"
  by (simp add: card_id_def resetButtonState_def)

lemma card_id_upd [simp]:
  "card_id (c\<lparr>button_display := b\<rparr>) = card_id c"
  "card_id (c\<lparr>quantity_selector := q\<rparr>) = card_id c"
  by (simp_all add: card_id_def)

lemma grid_click_add:
  assumes "i < length (cards s)" and "card_id (cards s ! i) = Some pid" and "pid \<noteq> []"
    and "''increment-btn'' \<notin> set classList" and "''decrement-btn'' \<notin> set classList"
    and "\<forall>item \<in> set (cart s). item_id item \<noteq> pid"
  shows "productGrid_click ops s (Some classList) (Some i) =
     s\<lparr> cart := cart s @
            [\<lparr> item_id = pid, name = pid, price = productPrice ops (cards s ! i),
                quantity = 1, item_image = productImage (cards s ! i) \<rparr>],
        cards := (cards s)[i := updateButtonState (cards s ! i) 1],
        panel := updateCart ops (cart s @
            [\<lparr> item_id = pid, name = pid, price = productPrice ops (cards s ! i),
                quantity = 1, item_image = productImage (cards s ! i) \<rparr>]) \<rparr>"
proof -
  from assms(6) have "find (\<lambda>item. item_id item = pid) (cart s) = None"
    by (simp add: find_None_iff_ids)
  with assms(1-5) show ?thesis
    by (simp add: productGrid_click_def addToCart_def Let_def)
qed

lemma grid_click_existing:
  assumes "i < length (cards s)" and "card_id (cards s ! i) = Some pid" and "pid \<noteq> []"
    and "''increment-btn'' \<notin> set classList" and "''decrement-btn'' \<notin> set classList"
    and "\<exists>item \<in> set (cart s). item_id item = pid"
  shows "productGrid_click ops s (Some classList) (Some i) = s"
proof -
  from assms(6) have "find (\<lambda>item. item_id item = pid) (cart s) \<noteq> None"
    by (simp add: find_None_iff_ids)
  then obtain item where "find (\<lambda>item. item_id item = pid) (cart s) = Some item" by blast
  with assms(1-5) show ?thesis
    by (simp add: productGrid_click_def Let_def)
qed

lemma grid_click_absent:
  assumes "i < length (cards s)" and "card_id (cards s ! i) = Some pid" and "pid \<noteq> []"
    and "''increment-btn'' \<in> set classList \<or> ''decrement-btn'' \<in> set classList"
    and "\<forall>item \<in> set (cart s). item_id item \<noteq> pid"
  shows "productGrid_click ops s (Some classList) (Some i) = s"
proof -
  from assms(5) have "find (\<lambda>item. item_id item = pid) (cart s) = None"
    by (simp add: find_None_iff_ids)
  with assms(1-4) show ?thesis
    by (auto simp: productGrid_click_def Let_def)
qed

lemma grid_click_increment:
  assumes "i < length (cards s)" and "card_id (cards s ! i) = Some pid" and "pid \<noteq> []"
    and "''increment-btn'' \<in> set classList"
    and "cart s = xs @ item # ys" and "item_id item = pid"
    and "\<forall>x \<in> set xs. item_id x \<noteq> pid"
  shows "productGrid_click ops s (Some classList) (Some i) =
     s\<lparr> cart := xs @ item\<lparr>quantity := quantity item + 1\<rparr> # ys,
        cards := (cards s)[i := updateButtonState (cards s ! i) (quantity item + 1)],
        panel := updateCart ops (xs @ item\<lparr>quantity := quantity item + 1\<rparr> # ys) \<rparr>"
proof -
  from assms(5-7) have "find (\<lambda>item. item_id item = pid) (cart s) = Some item"
    by (simp add: find_split)
  moreover from assms(5-7) have "set_quantity pid q (cart s) = xs @ item\<lparr>quantity := q\<rparr> # ys" for q
    by (simp add: set_quantity_split)
  ultimately show ?thesis using assms(1-4)
    by (simp add: productGrid_click_def Let_def)
qed

lemma grid_click_decrement:
  assumes "i < length (cards s)" and "card_id (cards s ! i) = Some pid" and "pid \<noteq> []"
    and "''increment-btn'' \<notin> set classList" and "''decrement-btn'' \<in> set classList"
    and "cart s = xs @ item # ys" and "item_id item = pid"
    and "\<forall>x \<in> set xs. item_id x \<noteq> pid"
    and "quantity item \<noteq> 1"
  shows "productGrid_click ops s (Some classList) (Some i) =
     s\<lparr> cart := xs @ item\<lparr>quantity := quantity item - 1\<rparr> # ys,
        cards := (cards s)[i := updateButtonState (cards s ! i) (quantity item - 1)],
        panel := updateCart ops (xs @ item\<lparr>quantity := quantity item - 1\<rparr> # ys) \<rparr>"
proof -
  from assms(6-8) have "find (\<lambda>item. item_id item = pid) (cart s) = Some item"
    by (simp add: find_split)
  moreover from assms(6-8) have "set_quantity pid q (cart s) = xs @ item\<lparr>quantity := q\<rparr> # ys" for q
    by (simp add: set_quantity_split)
  ultimately show ?thesis using assms(1-5,9)
    by (simp add: productGrid_click_def Let_def)
qed

lemma grid_click_decrement_last:
  assumes "i < length (cards s)" and "card_id (cards s ! i) = Some pid" and "pid \<noteq> []"
    and "''increment-btn'' \<notin> set classList" and "''decrement-btn'' \<in> set classList"
    and "cart s = xs @ item # ys" and "item_id item = pid"
    and "\<forall>x \<in> set xs. item_id x \<noteq> pid"
    and "quantity item = 1"
  shows "productGrid_click ops s (Some classList) (Some i) =
     s\<lparr> cart := filter (\<lambda>x. item_id x \<noteq> pid) (cart s),
        cards := (cards s)[i := resetButtonState (cards s ! i)],
        panel := updateCart ops (filter (\<lambda>x. item_id x \<noteq> pid) (cart s)) \<rparr>"
proof -
  from assms(6-8) have "find (\<lambda>item. item_id item = pid) (cart s) = Some item"
    by (simp add: find_split)
  then show ?thesis using assms(1-5,9)
    by (simp add: productGrid_click_def Let_def)
qed

lemma panel_click_remove:
  assumes "pid \<noteq> []"
  shows "cartSection_click ops s (Some (Some pid)) classList =
     s\<lparr> cart := filter (\<lambda>item. item_id item \<noteq> pid) (cart s),
        cards := (case findProductCardById (cards s) pid of
                    None \<Rightarrow> cards s
                  | Some i \<Rightarrow> (cards s)[i := resetButtonState (cards s ! i)]),
        panel := updateCart ops (filter (\<lambda>item. item_id item \<noteq> pid) (cart s)) \<rparr>"
  using assms by (simp add: cartSection_click_def Let_def)

lemma cart_showConfirmationModal: "cart (showConfirmationModal ops s) = cart s"
  by (simp add: showConfirmationModal_def split: prod.splits)

subsection \<open>Every operation keeps the invariant\<close>

lemma set_quantity_ge:
  "\<forall>item \<in> set c. 1 \<le> quantity item \<Longrightarrow> 1 \<le> q \<Longrightarrow>
   \<forall>item \<in> set (set_quantity cid q c). 1 \<le> quantity item"
  by (induction c) auto

lemma cart_ok_set_quantity: "cart_ok c \<Longrightarrow> 1 \<le> q \<Longrightarrow> cart_ok (set_quantity cid q c)"
  unfolding cart_ok_def using set_quantity_ge[of c q cid] by (simp add: set_quantity_ids)

lemma cart_ok_filter: "cart_ok c \<Longrightarrow> cart_ok (filter P c)"
  by (auto simp: cart_ok_def distinct_map_filter)

lemma cart_ok_append:
  "cart_ok c \<Longrightarrow> \<forall>x \<in> set c. item_id x \<noteq> cid \<Longrightarrow>
   cart_ok (c @ [\<lparr>item_id = cid, name = n, price = p, quantity = 1, item_image = im\<rparr>])"
  by (auto simp: cart_ok_def)

lemma cart_ok_productGrid_click:
  assumes "cart_ok (cart s)"
  shows "cart_ok (cart (productGrid_click ops s target card_ix))"
proof -
  have find_ge: "1 \<le> quantity item" if "find (\<lambda>x. item_id x = cid) (cart s) = Some item" for cid item
  proof -
    from find_Some_split[OF that] have "item \<in> set (cart s)" by auto
    with assms show ?thesis by (simp add: cart_ok_def)
  qed
  show ?thesis
    using assms
    by (auto simp: productGrid_click_def addToCart_def Let_def cart_ok_filter
        find_None_iff_ids
        intro!: cart_ok_set_quantity cart_ok_append dest!: find_ge
        split: option.splits)
qed

lemma cart_ok_cartSection_click:
  "cart_ok (cart s) \<Longrightarrow> cart_ok (cart (cartSection_click ops s removeBtn classList))"
  by (auto simp: cartSection_click_def Let_def cart_ok_filter cart_showConfirmationModal
      split: option.splits)

lemma cart_ok_resetOrder: "cart_ok (cart (resetOrder ops s))"
  by (simp add: resetOrder_def cart_ok_def)

lemma cart_ok_step: "cart_ok (cart s) \<Longrightarrow> cart_ok (cart (step ops s ev))"
  by (cases ev)
     (simp_all add: cart_ok_productGrid_click cart_ok_cartSection_click cart_ok_resetOrder)

lemma cart_ok_run: "cart_ok (cart s) \<Longrightarrow> cart_ok (cart (run ops s evs))"
  unfolding run_def by (induction evs arbitrary: s) (simp_all add: cart_ok_step)

subsection \<open>The panel follows the cart\<close>

lemma productGrid_click_panel:
  "panel (productGrid_click ops s target card_ix) =
     updateCart ops (cart (productGrid_click ops s target card_ix)) \<or>
   productGrid_click ops s target card_ix = s"
  by (simp add: productGrid_click_def addToCart_def Let_def split: option.splits)

lemma cartSection_click_panel:
  "panel (cartSection_click ops s removeBtn classList) =
     updateCart ops (cart (cartSection_click ops s removeBtn classList)) \<or>
   (cart (cartSection_click ops s removeBtn classList) = cart s \<and>
    panel (cartSection_click ops s removeBtn classList) = panel s)"
  by (simp add: cartSection_click_def showConfirmationModal_def Let_def
      split: option.splits prod.splits)

lemma step_panel:
  "panel (step ops s ev) = updateCart ops (cart (step ops s ev)) \<or>
   (cart (step ops s ev) = cart s \<and> panel (step ops s ev) = panel s)"
proof (cases ev)
  case (GridClick target card_ix)
  with productGrid_click_panel[of ops s target card_ix] show ?thesis by auto
next
  case (PanelClick removeBtn classList)
  with cartSection_click_panel[of ops s removeBtn classList] show ?thesis by simp
next
  case StartNewOrder
  then show ?thesis by (simp add: resetOrder_def)
qed

lemma panel_in_sync_step:
  "cart s = [] \<or> panel s = updateCart ops (cart s) \<Longrightarrow>
   cart (step ops s ev) = [] \<or> panel (step ops s ev) = updateCart ops (cart (step ops s ev))"
  using step_panel[of ops s ev] by auto

lemma panel_in_sync_run:
  "cart s = [] \<or> panel s = updateCart ops (cart s) \<Longrightarrow>
   cart (run ops s evs) = [] \<or> panel (run ops s evs) = updateCart ops (cart (run ops s evs))"
  unfolding run_def
proof (induction evs arbitrary: s)
  case Nil
  then show ?case by simp
next
  case (Cons ev evs)
  from Cons.IH[OF panel_in_sync_step[OF Cons.prems, of ev]] show ?case by simp
qed

subsection \<open>The example page\<close>

lemma exact_ops_sel:
  "n_zero exact_ops = Num 0"
  "n_add exact_ops (Num a) (Num b) = Num (a + b)"
  "n_mul exact_ops (Num a) (Num b) = Num (a * b)"
  "n_of_int exact_ops i = Num (rat_of_int i)"
  "n_truthy exact_ops (Num a) = (a \<noteq> 0)"
  "n_truthy exact_ops NaN = False"
  "n_toFixed2 exact_ops = exact_toFixed2"
  "n_parseFloat exact_ops = exact_parseFloat"
  by (simp_all add: exact_ops_def)

lemma card_id_waffle: "card_id waffle_card = Some ''Waffle''"
  by (simp add: card_id_def waffle_card_def trim_def is_space_def)

lemma card_id_brulee: "card_id brulee_card = Some ''Creme Brulee''"
  by (simp add: card_id_def brulee_card_def trim_def is_space_def)

lemma parse_650: "exact_parseFloat ''6.50'' = Num (13 / 2)"
  by (simp add: exact_parseFloat_def is_space_def is_digit_def digits_val_def pow10_def
      exponent_part_def Let_def)

lemma parse_700: "exact_parseFloat ''7.00'' = Num 7"
  by (simp add: exact_parseFloat_def is_space_def is_digit_def digits_val_def pow10_def
      exponent_part_def Let_def)

lemma parse_empty: "exact_parseFloat [] = NaN"
  by (simp add: exact_parseFloat_def)

lemma parse_neg_650: "exact_parseFloat ''-6.50'' = Num (- (13 / 2))"
  by (simp add: exact_parseFloat_def is_space_def is_digit_def digits_val_def pow10_def
      exponent_part_def Let_def)

lemma parse_neg_dollar: "exact_parseFloat ''-$6.50'' = NaN"
  by (simp add: exact_parseFloat_def is_space_def is_digit_def Let_def)

lemma toFixed_6_5: "exact_toFixed2 (Num (13 / 2)) = ''6.50''"
  by code_simp

lemma toFixed_20: "exact_toFixed2 (Num 20) = ''20.00''"
  by code_simp

lemma toFixed_0: "exact_toFixed2 (Num 0) = ''0.00''"
  by code_simp

lemma productPrice_waffle: "productPrice exact_ops waffle_card = Num (13 / 2)"
  by (simp add: productPrice_def waffle_card_def exact_ops_def parse_650)

lemma productPrice_brulee: "productPrice exact_ops brulee_card = Num 7"
  by (simp add: productPrice_def brulee_card_def exact_ops_def parse_700)

lemma productImage_waffle: "productImage waffle_card = Some ''images/image-waffle.jpg''"
  by (simp add: productImage_def waffle_card_def)

lemma productImage_brulee: "productImage brulee_card = Some ''images/image-creme-brulee.jpg''"
  by (simp add: productImage_def brulee_card_def)

lemma start_cards:
  "length (cards start_page) = 2"
  "cards start_page ! 0 = waffle_card"
  "cards start_page ! 1 = brulee_card"
  "cart start_page = []"
  by (simp_all add: start_page_def)

lemma shop_cart: "cart shop_page = [waffle_item 2, brulee_item 1]"
  by (simp add: shop_page_def)

lemma shop_cards:
  "length (cards shop_page) = 2"
  "card_id (cards shop_page ! 0) = Some ''Waffle''"
  "card_id (cards shop_page ! 1) = Some ''Creme Brulee''"
  by (simp_all add: shop_page_def card_id_waffle card_id_brulee)

lemma item_ids [simp]:
  "item_id (waffle_item q) = ''Waffle''"
  "item_id (brulee_item q) = ''Creme Brulee''"
  "quantity (waffle_item q) = q"
  "quantity (brulee_item q) = q"
  by (simp_all add: waffle_item_def brulee_item_def)

lemma shop_page_reached:
  "run exact_ops start_page [add_click 0, increment_click 0, add_click 1] = shop_page"
proof -
  let ?s1 = "start_page\<lparr> cart := [waffle_item 1],
      cards := [updateButtonState waffle_card 1, brulee_card],
      panel := updateCart exact_ops [waffle_item 1] \<rparr>"
  let ?s2 = "start_page\<lparr> cart := [waffle_item 2],
      cards := [updateButtonState (updateButtonState waffle_card 1) 2, brulee_card],
      panel := updateCart exact_ops [waffle_item 2] \<rparr>"
  have s1: "step exact_ops start_page (add_click 0) = ?s1"
    using grid_click_add[of 0 start_page "''Waffle''" "[''button'']" exact_ops]
    by (simp add: add_click_def start_page_def card_id_waffle productPrice_waffle
        productImage_waffle waffle_item_def)
  have s2: "step exact_ops ?s1 (increment_click 0) = ?s2"
    using grid_click_increment[of 0 ?s1 "''Waffle''" "[''increment-btn'']" "[]" "waffle_item 1" "[]"
        exact_ops]
    by (simp add: increment_click_def start_page_def card_id_waffle card_id_updateButtonState
        waffle_item_def)
  let ?s3 = "start_page\<lparr> cart := [waffle_item 2, brulee_item 1],
      cards := [updateButtonState (updateButtonState waffle_card 1) 2,
                updateButtonState brulee_card 1],
      panel := updateCart exact_ops [waffle_item 2, brulee_item 1] \<rparr>"
  have s3: "step exact_ops ?s2 (add_click 1) = ?s3"
    using grid_click_add[of 1 ?s2 "''Creme Brulee''" "[''button'']" exact_ops]
    by (simp add: add_click_def start_page_def card_id_brulee productPrice_brulee
        productImage_brulee waffle_item_def brulee_item_def)
  have s4: "?s3 = shop_page"
    by (simp add: start_page_def shop_page_def updateButtonState_def waffle_card_def
        brulee_card_def)
  show ?thesis by (simp only: run_def foldl.simps s1 s2 s3 s4)
qed

lemma grand_total_shop: "grand_total exact_ops (cart shop_page) = Num 20"
  by (simp add: grand_total_def exact_ops_sel shop_cart waffle_item_def brulee_item_def)

lemma total_items_shop: "total_items (cart shop_page) = 3"
  by (simp add: total_items_def shop_cart)

section \<open>The properties of the specification\<close>

text \<open>
  C1. In every state the controller reaches from an empty cart, by any sequence of clicks
  (add, increment, decrement, remove, confirm, start new order), every entry of the cart
  has a quantity of at least 1, so never 0, and no two entries have the same id.
\<close>

theorem cart_invariant:
  "cart s0 = [] \<Longrightarrow>
   (\<forall>item \<in> set (cart (run ops s0 evs)). 1 \<le> quantity item \<and> quantity item \<noteq> 0) \<and>
   distinct (map item_id (cart (run ops s0 evs)))"
proof -
  assume "cart s0 = []"
  then have "cart_ok (cart s0)" by (simp add: cart_ok_def)
  then have "cart_ok (cart (run ops s0 evs))" by (rule cart_ok_run)
  then show ?thesis by (auto simp: cart_ok_def)
qed

text \<open>
  On the example page: after adding a Waffle, incrementing it and adding a Creme Brulee,
  the cart holds two Waffles and one Creme Brulee.
\<close>

theorem cart_invariant_witness:
  "cart start_page = [] \<and>
   map (\<lambda>item. (item_id item, quantity item))
     (cart (run exact_ops start_page [add_click 0, increment_click 0, add_click 1]))
     = [(''Waffle'', 2), (''Creme Brulee'', 1)] \<and>
   list_all (\<lambda>item. 1 \<le> quantity item \<and> quantity item \<noteq> 0)
     (cart (run exact_ops start_page [add_click 0, increment_click 0, add_click 1])) \<and>
   distinct (map item_id
     (cart (run exact_ops start_page [add_click 0, increment_click 0, add_click 1])))"
proof -
  let ?evs = "[add_click 0, increment_click 0, add_click 1]"
  have v: "map (\<lambda>item. (item_id item, quantity item)) (cart (run exact_ops start_page ?evs))
      = [(''Waffle'', 2), (''Creme Brulee'', 1)]"
    by (simp only: shop_page_reached shop_cart) simp
  note t = cart_invariant[OF start_cards(4), of exact_ops ?evs]
  have a: "list_all (\<lambda>item. 1 \<le> quantity item \<and> quantity item \<noteq> 0)
      (cart (run exact_ops start_page ?evs))"
    using t[THEN conjunct1] by (simp only: list_all_iff)
  from start_cards(4) v a t[THEN conjunct2] show ?thesis by (intro conjI)
qed

text \<open>
  C2. A click on a button of a card that is neither the increment nor the decrement
  control (the plain add control), for a card with a non-empty id: when the cart has no
  entry with that id, exactly one entry is appended, with that id and quantity 1; when
  it has one, the click changes nothing at all, so the quantity stays and no second
  entry appears. In both cases a second click right after the first changes nothing.
\<close>

theorem plain_add_click:
  assumes "i < length (cards s)" and "card_id (cards s ! i) = Some pid" and "pid \<noteq> []"
    and "''increment-btn'' \<notin> set classList" and "''decrement-btn'' \<notin> set classList"
  shows "((\<forall>item \<in> set (cart s). item_id item \<noteq> pid) \<longrightarrow>
            cart (productGrid_click ops s (Some classList) (Some i)) =
              cart s @ [\<lparr> item_id = pid, name = pid, price = productPrice ops (cards s ! i),
                           quantity = 1, item_image = productImage (cards s ! i) \<rparr>]) \<and>
         ((\<exists>item \<in> set (cart s). item_id item = pid) \<longrightarrow>
            productGrid_click ops s (Some classList) (Some i) = s) \<and>
         productGrid_click ops (productGrid_click ops s (Some classList) (Some i))
             (Some classList) (Some i) =
           productGrid_click ops s (Some classList) (Some i)"
proof (intro conjI impI)
  assume "\<forall>item \<in> set (cart s). item_id item \<noteq> pid"
  from grid_click_add[OF assms this, of ops]
  show "cart (productGrid_click ops s (Some classList) (Some i)) =
      cart s @ [\<lparr> item_id = pid, name = pid, price = productPrice ops (cards s ! i),
                   quantity = 1, item_image = productImage (cards s ! i) \<rparr>]"
    by simp
next
  assume "\<exists>item \<in> set (cart s). item_id item = pid"
  from grid_click_existing[OF assms this]
  show "productGrid_click ops s (Some classList) (Some i) = s" .
next
  let ?s' = "productGrid_click ops s (Some classList) (Some i)"
  show "productGrid_click ops ?s' (Some classList) (Some i) = ?s'"
  proof (cases "\<exists>item \<in> set (cart s). item_id item = pid")
    case True
    from grid_click_existing[OF assms True] show ?thesis by simp
  next
    case False
    then have "\<forall>item \<in> set (cart s). item_id item \<noteq> pid" by simp
    note eq = grid_click_add[OF assms this, of ops]
    have "i < length (cards ?s')" using assms(1) by (simp add: eq)
    moreover have "card_id (cards ?s' ! i) = Some pid"
      using assms(1,2) by (simp add: eq card_id_updateButtonState)
    moreover have "\<exists>item \<in> set (cart ?s'). item_id item = pid"
      by (simp add: eq)
    ultimately show ?thesis
      using assms(3-5) by (intro grid_click_existing)
  qed
qed

text \<open>
  On the example pages: the first click on the Waffle card adds one Waffle; the same
  click on the page that already holds two Waffles leaves that page as it is.
\<close>

theorem plain_add_click_witness:
  "0 < length (cards start_page) \<and>
   card_id (cards start_page ! 0) = Some ''Waffle'' \<and>
   cart (productGrid_click exact_ops start_page (Some [''button'']) (Some 0)) = [waffle_item 1] \<and>
   productGrid_click exact_ops shop_page (Some [''button'']) (Some 0) = shop_page \<and>
   map quantity (cart (productGrid_click exact_ops shop_page (Some [''button'']) (Some 0))) = [2, 1]"
proof -
  have h1: "0 < length (cards start_page)" by (simp add: start_cards)
  have h2: "card_id (cards start_page ! 0) = Some ''Waffle''"
    by (simp add: start_cards card_id_waffle)
  have h3: "''Waffle'' \<noteq> []" by simp
  have h4: "''increment-btn'' \<notin> set [''button'']" by simp
  have h5: "''decrement-btn'' \<notin> set [''button'']" by simp
  have g1: "0 < length (cards shop_page)" by (simp add: shop_cards)
  from plain_add_click[OF h1 h2 h3 h4 h5, of exact_ops]
  have a: "cart (productGrid_click exact_ops start_page (Some [''button'']) (Some 0)) = [waffle_item 1]"
    by (simp add: start_cards productPrice_waffle productImage_waffle waffle_item_def)
  from plain_add_click[OF g1 shop_cards(2) h3 h4 h5, of exact_ops]
  have b: "productGrid_click exact_ops shop_page (Some [''button'']) (Some 0) = shop_page"
    by (simp add: shop_cart)
  show ?thesis using h1 h2 a b by (simp add: shop_cart)
qed

text \<open>
  C3. A click on the decrement control of a card, where \<open>item\<close> is the first entry of the
  cart with the card's id: a quantity above 1 goes down by one and nothing else in the
  cart changes; at quantity 1 the entry leaves the cart, and the card loses its quantity
  selector and shows its button again (\<open>display = 'block'\<close>). Without an entry for the
  card's id the click changes nothing.
\<close>

theorem decrement_click:
  assumes "i < length (cards s)" and "card_id (cards s ! i) = Some pid" and "pid \<noteq> []"
    and "''increment-btn'' \<notin> set classList" and "''decrement-btn'' \<in> set classList"
    and "s' = productGrid_click ops s (Some classList) (Some i)"
  shows "(\<forall>xs item ys.
            cart s = xs @ item # ys \<and> item_id item = pid \<and> (\<forall>x \<in> set xs. item_id x \<noteq> pid) \<longrightarrow>
              (1 < quantity item \<longrightarrow>
                 cart s' = xs @ item\<lparr>quantity := quantity item - 1\<rparr> # ys) \<and>
              (quantity item = 1 \<longrightarrow>
                 cart s' = filter (\<lambda>x. item_id x \<noteq> pid) (cart s) \<and>
                 (\<forall>x \<in> set (cart s'). item_id x \<noteq> pid) \<and>
                 ((\<forall>y \<in> set ys. item_id y \<noteq> pid) \<longrightarrow> cart s' = xs @ ys) \<and>
                 quantity_selector (cards s' ! i) = None \<and>
                 button_display (cards s' ! i) =
                   map_option (\<lambda>_. ''block'') (button_display (cards s ! i)))) \<and>
         ((\<forall>x \<in> set (cart s). item_id x \<noteq> pid) \<longrightarrow> s' = s)"
proof (intro conjI allI impI; (elim conjE)?)
  fix xs item ys
  assume c: "cart s = xs @ item # ys" "item_id item = pid" "\<forall>x \<in> set xs. item_id x \<noteq> pid"
  {
    assume "1 < quantity item"
    then have "quantity item \<noteq> 1" by simp
    from grid_click_decrement[OF assms(1-5) c this, of ops]
    show "cart s' = xs @ item\<lparr>quantity := quantity item - 1\<rparr> # ys"
      by (simp add: assms(6))
  }
  {
    assume q: "quantity item = 1"
    note eq = grid_click_decrement_last[OF assms(1-5) c q, of ops]
    show "cart s' = filter (\<lambda>x. item_id x \<noteq> pid) (cart s)"
      by (simp add: assms(6) eq)
    show "\<forall>x \<in> set (cart s'). item_id x \<noteq> pid"
      by (simp add: assms(6) eq)
    show "quantity_selector (cards s' ! i) = None"
      using assms(1) by (simp add: assms(6) eq resetButtonState_def)
    show "button_display (cards s' ! i) = map_option (\<lambda>_. ''block'') (button_display (cards s ! i))"
      using assms(1) by (simp add: assms(6) eq resetButtonState_def)
    {
      assume "\<forall>y \<in> set ys. item_id y \<noteq> pid"
      with c show "cart s' = xs @ ys"
        by (simp add: assms(6) eq filter_id_conv)
    }
  }
next
  assume "\<forall>x \<in> set (cart s). item_id x \<noteq> pid"
  with assms show "s' = s" by (simp add: grid_click_absent)
qed

text \<open>
  On the example page with two Waffles and one Creme Brulee: the decrement control of
  the Waffle card leaves one Waffle, that of the Creme Brulee card removes the entry and
  resets the card; on the start page the click changes nothing.
\<close>

theorem decrement_click_witness:
  "card_id (cards shop_page ! 0) = Some ''Waffle'' \<and>
   card_id (cards shop_page ! 1) = Some ''Creme Brulee'' \<and>
   cart shop_page = [waffle_item 2, brulee_item 1] \<and>
   cart (productGrid_click exact_ops shop_page (Some [''decrement-btn'']) (Some 0)) =
     [waffle_item 1, brulee_item 1] \<and>
   cart (productGrid_click exact_ops shop_page (Some [''decrement-btn'']) (Some 1)) =
     [waffle_item 2] \<and>
   quantity_selector
     (cards (productGrid_click exact_ops shop_page (Some [''decrement-btn'']) (Some 1)) ! 1) = None \<and>
   button_display
     (cards (productGrid_click exact_ops shop_page (Some [''decrement-btn'']) (Some 1)) ! 1) =
     Some ''block'' \<and>
   productGrid_click exact_ops start_page (Some [''decrement-btn'']) (Some 0) = start_page"
proof -
  have l0: "0 < length (cards shop_page)" and l1: "1 < length (cards shop_page)"
    by (simp_all add: shop_cards)
  have n1: "''Waffle'' \<noteq> []" and n2: "''Creme Brulee'' \<noteq> []" by simp_all
  have k1: "''increment-btn'' \<notin> set [''decrement-btn'']"
    and k2: "''decrement-btn'' \<in> set [''decrement-btn'']" by simp_all
  have w: "cart shop_page = [] @ waffle_item 2 # [brulee_item 1] \<and>
      item_id (waffle_item 2) = ''Waffle'' \<and> (\<forall>x \<in> set []. item_id x \<noteq> ''Waffle'')"
    by (simp add: shop_cart)
  have b: "cart shop_page = [waffle_item 2] @ brulee_item 1 # [] \<and>
      item_id (brulee_item 1) = ''Creme Brulee'' \<and>
      (\<forall>x \<in> set [waffle_item 2]. item_id x \<noteq> ''Creme Brulee'')"
    by (simp add: shop_cart)
  note d0 = decrement_click[OF l0 shop_cards(2) n1 k1 k2 refl, of exact_ops, THEN conjunct1,
      rule_format, OF w, THEN conjunct1, rule_format]
  have "1 < quantity (waffle_item 2)" by simp
  from d0[OF this]
  have a1: "cart (productGrid_click exact_ops shop_page (Some [''decrement-btn'']) (Some 0)) =
      [waffle_item 1, brulee_item 1]"
    by (simp add: waffle_item_def)
  note d1 = decrement_click[OF l1 shop_cards(3) n2 k1 k2 refl, of exact_ops, THEN conjunct1,
      rule_format, OF b, THEN conjunct2, rule_format]
  have "quantity (brulee_item 1) = 1" by simp
  note d1' = d1[OF this]
  have bd: "button_display (cards shop_page ! 1) = Some ''none''"
    by (simp add: shop_page_def)
  from d1' bd
  have a2: "cart (productGrid_click exact_ops shop_page (Some [''decrement-btn'']) (Some 1)) =
        [waffle_item 2] \<and>
      quantity_selector
        (cards (productGrid_click exact_ops shop_page (Some [''decrement-btn'']) (Some 1)) ! 1) = None \<and>
      button_display
        (cards (productGrid_click exact_ops shop_page (Some [''decrement-btn'']) (Some 1)) ! 1) =
        Some ''block''"
    by (simp add: shop_cart)
  have m0: "0 < length (cards start_page)" by (simp add: start_cards)
  have m1: "card_id (cards start_page ! 0) = Some ''Waffle''"
    by (simp add: start_cards card_id_waffle)
  from decrement_click[OF m0 m1 n1 k1 k2 refl, of exact_ops]
  have a3: "productGrid_click exact_ops start_page (Some [''decrement-btn'']) (Some 0) = start_page"
    by (simp add: start_cards)
  show ?thesis using a1 a2 a3 shop_cards(2,3) shop_cart by simp
qed

text \<open>
  C4, as the code has it. The item count the panel shows is the sum of the quantities,
  for every cart. For a non-empty cart the panel shows one row per entry and the order
  total \<open>$\<close> followed by \<open>toFixed(2)\<close> of the sum of \<open>price \<times> quantity\<close>, taken in cart order
  from \<open>0\<close>. For the empty cart it shows the empty-state message, which has no total.
  Every click that changes the cart renders the panel again from the whole cart, so in
  every state reached from an empty cart whose cart is not empty the panel shows these
  totals.
\<close>

theorem panel_totals:
  "panel_count (updateCart ops c) = Some (total_items c) \<and>
   (c \<noteq> [] \<longrightarrow>
      updateCart ops c =
        CartView (total_items c) (map (cart_item_row ops) c)
          (''$'' @ n_toFixed2 ops (grand_total ops c)) \<and>
      panel_total (updateCart ops c) = Some (''$'' @ n_toFixed2 ops (grand_total ops c))) \<and>
   (c = [] \<longrightarrow> updateCart ops c = EmptyCart) \<and>
   (cart (step ops s ev) \<noteq> cart s \<longrightarrow>
      panel (step ops s ev) = updateCart ops (cart (step ops s ev))) \<and>
   (cart s0 = [] \<and> cart (run ops s0 evs) \<noteq> [] \<longrightarrow>
      panel_total (panel (run ops s0 evs)) =
        Some (''$'' @ n_toFixed2 ops (grand_total ops (cart (run ops s0 evs)))) \<and>
      panel_count (panel (run ops s0 evs)) = Some (total_items (cart (run ops s0 evs))))"
proof (intro conjI impI)
  show "panel_count (updateCart ops c) = Some (total_items c)"
    by (cases "c = []") (simp_all add: updateCart_nonempty updateCart_empty total_items_def)
  show "updateCart ops c =
        CartView (total_items c) (map (cart_item_row ops) c)
          (''$'' @ n_toFixed2 ops (grand_total ops c))" if "c \<noteq> []"
    using that by (rule updateCart_nonempty)
  show "panel_total (updateCart ops c) = Some (''$'' @ n_toFixed2 ops (grand_total ops c))"
    if "c \<noteq> []"
    using that by (simp add: updateCart_nonempty)
  show "updateCart ops c = EmptyCart" if "c = []"
    using that by (simp add: updateCart_empty)
  show "panel (step ops s ev) = updateCart ops (cart (step ops s ev))"
    if "cart (step ops s ev) \<noteq> cart s"
    using that step_panel[of ops s ev] by simp
next
  assume a: "cart s0 = [] \<and> cart (run ops s0 evs) \<noteq> []"
  then have "cart s0 = [] \<or> panel s0 = updateCart ops (cart s0)" by simp
  from panel_in_sync_run[OF this, of evs] a
  have p: "panel (run ops s0 evs) = updateCart ops (cart (run ops s0 evs))" by simp
  from a show "panel_total (panel (run ops s0 evs)) =
        Some (''$'' @ n_toFixed2 ops (grand_total ops (cart (run ops s0 evs))))"
    by (simp add: p updateCart_nonempty)
  from a show "panel_count (panel (run ops s0 evs)) = Some (total_items (cart (run ops s0 evs)))"
    by (simp add: p updateCart_nonempty)
qed

text \<open>
  On the example page: two Waffles at 6.50 and one Creme Brulee at 7.00 give the count 3
  and the total \<open>$20.00\<close>.
\<close>

theorem panel_totals_witness:
  "cart start_page = [] \<and>
   cart (run exact_ops start_page [add_click 0, increment_click 0, add_click 1]) =
     [waffle_item 2, brulee_item 1] \<and>
   panel_total (panel (run exact_ops start_page [add_click 0, increment_click 0, add_click 1])) =
     Some ''$20.00'' \<and>
   panel_count (panel (run exact_ops start_page [add_click 0, increment_click 0, add_click 1])) =
     Some 3 \<and>
   panel_total (updateCart exact_ops [waffle_item 2, brulee_item 1]) = Some ''$20.00''"
proof -
  let ?evs = "[add_click 0, increment_click 0, add_click 1]"
  have h: "cart start_page = [] \<and> cart (run exact_ops start_page ?evs) \<noteq> []"
    by (simp only: shop_page_reached shop_cart start_cards) simp
  have ne: "cart shop_page \<noteq> []" by (simp add: shop_cart)
  note t = panel_totals[of exact_ops "cart shop_page" start_page "add_click 0" start_page ?evs]
  note t5 = t[THEN conjunct2, THEN conjunct2, THEN conjunct2, THEN conjunct2, rule_format, OF h]
  note t2 = t[THEN conjunct2, THEN conjunct1, rule_format, OF ne, THEN conjunct2]
  have a: "panel_total (panel (run exact_ops start_page ?evs)) = Some ''$20.00''"
    using t5[THEN conjunct1]
    by (simp only: shop_page_reached grand_total_shop exact_ops_sel toFixed_20) simp
  have b: "panel_count (panel (run exact_ops start_page ?evs)) = Some 3"
    using t5[THEN conjunct2] by (simp only: shop_page_reached total_items_shop)
  have c: "panel_total (updateCart exact_ops [waffle_item 2, brulee_item 1]) = Some ''$20.00''"
    using t2 by (simp only: grand_total_shop[unfolded shop_cart] shop_cart exact_ops_sel toFixed_20) simp
  have d: "cart (run exact_ops start_page ?evs) = [waffle_item 2, brulee_item 1]"
    by (simp only: shop_page_reached shop_cart)
  show ?thesis using a b c d start_cards(4) by (intro conjI)
qed

text \<open>
  The specification speaks of the total of every cart. After a Waffle is added and
  decremented the cart is empty, and the panel shows no total where the sum would be
  \<open>$0.00\<close>.
\<close>

theorem panel_total_counterexample:
  "cart (run exact_ops start_page [add_click 0, decrement_click 0]) = [] \<and>
   panel (run exact_ops start_page [add_click 0, decrement_click 0]) = EmptyCart \<and>
   panel_total (panel (run exact_ops start_page [add_click 0, decrement_click 0])) = None \<and>
   panel_total (updateCart exact_ops []) = None \<and>
   ''$'' @ n_toFixed2 exact_ops (grand_total exact_ops []) = ''$0.00''"
proof -
  let ?s1 = "start_page\<lparr> cart := [waffle_item 1],
      cards := [updateButtonState waffle_card 1, brulee_card],
      panel := updateCart exact_ops [waffle_item 1] \<rparr>"
  have s1: "step exact_ops start_page (add_click 0) = ?s1"
    using grid_click_add[of 0 start_page "''Waffle''" "[''button'']" exact_ops]
    by (simp add: add_click_def start_page_def card_id_waffle productPrice_waffle
        productImage_waffle waffle_item_def)
  have s2: "step exact_ops ?s1 (decrement_click 0) =
      ?s1\<lparr> cart := [], cards := [resetButtonState (updateButtonState waffle_card 1), brulee_card],
           panel := EmptyCart \<rparr>"
    using grid_click_decrement_last[of 0 ?s1 "''Waffle''" "[''decrement-btn'']" "[]"
        "waffle_item 1" "[]" exact_ops]
    by (simp add: decrement_click_def start_page_def card_id_waffle card_id_updateButtonState
        updateCart_empty)
  have r: "run exact_ops start_page [add_click 0, decrement_click 0] =
      ?s1\<lparr> cart := [], cards := [resetButtonState (updateButtonState waffle_card 1), brulee_card],
           panel := EmptyCart \<rparr>"
    by (simp only: run_def foldl.simps s1 s2)
  show ?thesis
    by (simp add: r updateCart_empty grand_total_def exact_ops_sel toFixed_0)
qed

text \<open>
  C5. A click on a remove control that carries a non-empty product id: the cart after the
  click is the cart before it without the entries of that id, whatever their quantity;
  the other entries are the same records in the same order; when the id is that of one
  entry, the cart is the entries before it followed by the entries after it; and when no
  entry has the id, the cart is unchanged.
\<close>

theorem remove_click:
  assumes "pid \<noteq> []" and "s' = cartSection_click ops s (Some (Some pid)) classList"
  shows "cart s' = filter (\<lambda>item. item_id item \<noteq> pid) (cart s) \<and>
         (\<forall>item \<in> set (cart s'). item_id item \<noteq> pid) \<and>
         (\<forall>xs item ys.
            cart s = xs @ item # ys \<and> item_id item = pid \<and>
            (\<forall>x \<in> set (xs @ ys). item_id x \<noteq> pid) \<longrightarrow> cart s' = xs @ ys) \<and>
         ((\<forall>item \<in> set (cart s). item_id item \<noteq> pid) \<longrightarrow> cart s' = cart s)"
proof (intro conjI allI impI)
  show eq: "cart s' = filter (\<lambda>item. item_id item \<noteq> pid) (cart s)"
    by (simp add: assms(2) panel_click_remove[OF assms(1)])
  show "\<forall>item \<in> set (cart s'). item_id item \<noteq> pid"
    by (simp add: eq)
  show "cart s' = xs @ ys"
    if "cart s = xs @ item # ys \<and> item_id item = pid \<and> (\<forall>x \<in> set (xs @ ys). item_id x \<noteq> pid)"
    for xs item ys
    using that eq by (simp add: filter_id_conv)
  show "cart s' = cart s" if "\<forall>item \<in> set (cart s). item_id item \<noteq> pid"
    using that eq by (simp add: filter_id_conv)
qed

text \<open>
  On the example page: removing \<open>Waffle\<close> (quantity 2) leaves the Creme Brulee; removing
  \<open>Tiramisu\<close>, which is not in the cart, leaves both entries.
\<close>

theorem remove_click_witness:
  "''Waffle'' \<noteq> [] \<and>
   cart (cartSection_click exact_ops shop_page (Some (Some ''Waffle'')) [''remove-item-btn'']) =
     [brulee_item 1] \<and>
   cart (cartSection_click exact_ops shop_page (Some (Some ''Tiramisu'')) [''remove-item-btn'']) =
     [waffle_item 2, brulee_item 1]"
proof -
  have n1: "''Waffle'' \<noteq> []" and n2: "''Tiramisu'' \<noteq> []" by simp_all
  from remove_click[OF n1 refl, of exact_ops shop_page "[''remove-item-btn'']", THEN conjunct1]
  have a1: "cart (cartSection_click exact_ops shop_page (Some (Some ''Waffle'')) [''remove-item-btn''])
      = [brulee_item 1]"
    by (simp add: shop_cart)
  from remove_click[OF n2 refl, of exact_ops shop_page "[''remove-item-btn'']", THEN conjunct1]
  have a2: "cart (cartSection_click exact_ops shop_page (Some (Some ''Tiramisu'')) [''remove-item-btn''])
      = [waffle_item 2, brulee_item 1]"
    by (simp add: shop_cart)
  show ?thesis using a1 a2 by simp
qed

text \<open>
  C6. The start-new-order click, from any state: the modal is hidden, the cart is empty,
  the panel shows the empty-state message, and every product card is back in its add
  display: no quantity selector, the button (when the card has one) displayed as
  \<open>block\<close>, name, price and image untouched.
\<close>

theorem resetOrder_effect:
  assumes "s' = step ops s StartNewOrder"
  shows "modal_display s' = ''none'' \<and>
         cart s' = [] \<and>
         panel s' = EmptyCart \<and>
         length (cards s') = length (cards s) \<and>
         (\<forall>i < length (cards s).
            quantity_selector (cards s' ! i) = None \<and>
            button_display (cards s' ! i) =
              map_option (\<lambda>_. ''block'') (button_display (cards s ! i)) \<and>
            cart_name (cards s' ! i) = cart_name (cards s ! i) \<and>
            card_price (cards s' ! i) = card_price (cards s ! i) \<and>
            img_src (cards s' ! i) = img_src (cards s ! i)) \<and>
         (\<forall>c \<in> set (cards s'). quantity_selector c = None \<and> button_display c \<noteq> Some ''none'')"
proof -
  have s': "s' = resetOrder ops s" using assms by simp
  have a: "modal_display s' = ''none''" "cart s' = []" "panel s' = EmptyCart"
      "length (cards s') = length (cards s)"
    by (simp_all add: s' resetOrder_def updateCart_def)
  have b: "\<forall>i < length (cards s).
            quantity_selector (cards s' ! i) = None \<and>
            button_display (cards s' ! i) =
              map_option (\<lambda>_. ''block'') (button_display (cards s ! i)) \<and>
            cart_name (cards s' ! i) = cart_name (cards s ! i) \<and>
            card_price (cards s' ! i) = card_price (cards s ! i) \<and>
            img_src (cards s' ! i) = img_src (cards s ! i)"
    by (simp add: s' resetOrder_def resetButtonState_def)
  have c: "\<forall>c \<in> set (cards s'). quantity_selector c = None \<and> button_display c \<noteq> Some ''none''"
    by (auto simp: s' resetOrder_def resetButtonState_def)
  from a b c show ?thesis by (intro conjI)
qed

text \<open>
  On the example page with the modal open: both cards showed a quantity selector before,
  neither does after, and both buttons are displayed.
\<close>

theorem resetOrder_effect_witness:
  "map quantity_selector (cards shop_page) = [Some (Some 2), Some (Some 1)] \<and>
   modal_display (step exact_ops (shop_page\<lparr>modal_display := ''flex''\<rparr>) StartNewOrder) = ''none'' \<and>
   cart (step exact_ops (shop_page\<lparr>modal_display := ''flex''\<rparr>) StartNewOrder) = [] \<and>
   panel (step exact_ops (shop_page\<lparr>modal_display := ''flex''\<rparr>) StartNewOrder) = EmptyCart \<and>
   length (cards (step exact_ops (shop_page\<lparr>modal_display := ''flex''\<rparr>) StartNewOrder)) = 2 \<and>
   quantity_selector
     (cards (step exact_ops (shop_page\<lparr>modal_display := ''flex''\<rparr>) StartNewOrder) ! 0) = None \<and>
   button_display
     (cards (step exact_ops (shop_page\<lparr>modal_display := ''flex''\<rparr>) StartNewOrder) ! 0) =
     Some ''block'' \<and>
   quantity_selector
     (cards (step exact_ops (shop_page\<lparr>modal_display := ''flex''\<rparr>) StartNewOrder) ! 1) = None \<and>
   button_display
     (cards (step exact_ops (shop_page\<lparr>modal_display := ''flex''\<rparr>) StartNewOrder) ! 1) =
     Some ''block''"
proof -
  let ?s = "shop_page\<lparr>modal_display := ''flex''\<rparr>"
  note r = resetOrder_effect[OF refl, of exact_ops ?s]
  note ri = r[THEN conjunct2, THEN conjunct2, THEN conjunct2, THEN conjunct2, THEN conjunct1,
      rule_format]
  have l: "length (cards ?s) = 2" "0 < length (cards ?s)" "1 < length (cards ?s)"
    by (simp_all add: shop_cards)
  have bd: "button_display (cards ?s ! 0) = Some ''none''"
      "button_display (cards ?s ! 1) = Some ''none''"
    by (simp_all add: shop_page_def)
  have m3: "map quantity_selector (cards shop_page) = [Some (Some 2), Some (Some 1)]"
    by (simp add: shop_page_def)
  note a = r[THEN conjunct1] r[THEN conjunct2, THEN conjunct1]
    r[THEN conjunct2, THEN conjunct2, THEN conjunct1]
    r[THEN conjunct2, THEN conjunct2, THEN conjunct2, THEN conjunct1]
  from ri[OF l(2)] bd(1)
  have c0: "quantity_selector (cards (step exact_ops ?s StartNewOrder) ! 0) = None"
      "button_display (cards (step exact_ops ?s StartNewOrder) ! 0) = Some ''block''"
    by (elim conjE; simp only: option.map)+
  from ri[OF l(3)] bd(2)
  have c1: "quantity_selector (cards (step exact_ops ?s StartNewOrder) ! 1) = None"
      "button_display (cards (step exact_ops ?s StartNewOrder) ! 1) = Some ''block''"
    by (elim conjE; simp only: option.map)+
  show ?thesis
    by (intro conjI) (simp_all only: m3 a l(1) c0 c1)
qed

text \<open>
  C7, as the code has it. A plain add click on a card with no entry in the cart appends
  the entry whatever the price text is. Its price is \<open>parseFloat\<close> of the price text (the
  empty text without a price element) with its first \<open>$\<close> removed, wherever that \<open>$\<close>
  stands, and \<open>0\<close> when the result is \<open>NaN\<close> or zero. When the text starts with \<open>$\<close> or
  holds none, this is the price of the specification's wording.
\<close>

theorem stored_price:
  assumes "i < length (cards s)" and "card_id (cards s ! i) = Some pid" and "pid \<noteq> []"
    and "''increment-btn'' \<notin> set classList" and "''decrement-btn'' \<notin> set classList"
    and "\<forall>item \<in> set (cart s). item_id item \<noteq> pid"
    and "t = (case card_price (cards s ! i) of None \<Rightarrow> [] | Some x \<Rightarrow> x)"
    and "parsed = n_parseFloat ops (replace_first ''$'' [] t)"
    and "s' = productGrid_click ops s (Some classList) (Some i)"
  shows "cart s' = cart s @
           [\<lparr> item_id = pid, name = pid,
               price = (if n_truthy ops parsed then parsed else n_zero ops),
               quantity = 1, item_image = productImage (cards s ! i) \<rparr>] \<and>
         (n_truthy ops parsed \<longrightarrow> price (last (cart s')) = parsed) \<and>
         (\<not> n_truthy ops parsed \<longrightarrow> price (last (cart s')) = n_zero ops) \<and>
         (CHR ''$'' \<notin> set t \<longrightarrow> replace_first ''$'' [] t = t) \<and>
         (\<forall>a b. t = a @ ''$'' @ b \<and> CHR ''$'' \<notin> set a \<longrightarrow> replace_first ''$'' [] t = a @ b) \<and>
         ((\<exists>r. t = CHR ''$'' # r) \<or> CHR ''$'' \<notin> set t \<longrightarrow>
            price (last (cart s')) = spec_productPrice ops t)"
proof -
  have pp: "productPrice ops (cards s ! i) = (if n_truthy ops parsed then parsed else n_zero ops)"
    by (simp add: productPrice_def assms(7,8) Let_def)
  have c: "cart s' = cart s @
           [\<lparr> item_id = pid, name = pid,
               price = (if n_truthy ops parsed then parsed else n_zero ops),
               quantity = 1, item_image = productImage (cards s ! i) \<rparr>]"
    by (simp add: assms(9) grid_click_add[OF assms(1-6), of ops] pp)
  have l: "price (last (cart s')) = (if n_truthy ops parsed then parsed else n_zero ops)"
    by (simp add: c)
  have r1: "replace_first ''$'' [] t = t" if "CHR ''$'' \<notin> set t"
    using that by (rule replace_first_char_absent)
  have r2: "replace_first ''$'' [] t = a @ b" if "t = a @ ''$'' @ b \<and> CHR ''$'' \<notin> set a" for a b
    using that replace_first_char_first[of "CHR ''$''" a "[]" b] by simp
  have sp: "price (last (cart s')) = spec_productPrice ops t"
    if "(\<exists>r. t = CHR ''$'' # r) \<or> CHR ''$'' \<notin> set t"
  proof -
    from that have "replace_first ''$'' [] t = strip_leading_currency t"
    proof
      assume "\<exists>r. t = CHR ''$'' # r"
      then show ?thesis by (auto simp: strip_leading_currency_def)
    next
      assume n: "CHR ''$'' \<notin> set t"
      then have "strip_leading_currency t = t"
        by (cases t) (auto simp: strip_leading_currency_def)
      with r1[OF n] show ?thesis by simp
    qed
    then show ?thesis by (simp add: l spec_productPrice_def assms(8) Let_def)
  qed
  from r2 have r2': "\<forall>a b. t = a @ ''$'' @ b \<and> CHR ''$'' \<notin> set a \<longrightarrow> replace_first ''$'' [] t = a @ b"
    by blast
  from c l r1 r2' sp show ?thesis by (intro conjI impI) simp_all
qed

text \<open>
  On the example page: the Waffle card's \<open>$6.50\<close> is stored as 6.5, and a card without a
  price element gives the price 0.
\<close>

theorem stored_price_witness:
  "card_id (cards start_page ! 0) = Some ''Waffle'' \<and>
   card_price (cards start_page ! 0) = Some ''$6.50'' \<and>
   cart (productGrid_click exact_ops start_page (Some [''button'']) (Some 0)) = [waffle_item 1] \<and>
   price (last (cart (productGrid_click exact_ops start_page (Some [''button'']) (Some 0)))) =
     Num (13 / 2) \<and>
   price (last (cart (productGrid_click exact_ops
       (start_page\<lparr>cards := [waffle_card\<lparr>card_price := None\<rparr>]\<rparr>) (Some [''button'']) (Some 0)))) =
     Num 0"
proof -
  have h1: "0 < length (cards start_page)" by (simp add: start_cards)
  have h2: "card_id (cards start_page ! 0) = Some ''Waffle''"
    by (simp add: start_cards card_id_waffle)
  have h3: "''Waffle'' \<noteq> []" by simp
  have h4: "''increment-btn'' \<notin> set [''button'']" by simp
  have h5: "''decrement-btn'' \<notin> set [''button'']" by simp
  have h6: "\<forall>item \<in> set (cart start_page). item_id item \<noteq> ''Waffle''"
    by (simp add: start_cards)
  have h7: "''$6.50'' = (case card_price (cards start_page ! 0) of None \<Rightarrow> [] | Some x \<Rightarrow> x)"
    by (simp add: start_cards waffle_card_def)
  have h8: "Num (13 / 2) = n_parseFloat exact_ops (replace_first ''$'' [] ''$6.50'')"
    by (simp add: exact_ops_sel parse_650)
  note t = stored_price[OF h1 h2 h3 h4 h5 h6 h7 h8 refl]
  have a: "cart (productGrid_click exact_ops start_page (Some [''button'']) (Some 0)) = [waffle_item 1]"
    using t[THEN conjunct1]
    by (simp add: start_cards exact_ops_sel productImage_waffle waffle_item_def)
  have tr: "n_truthy exact_ops (Num (13 / 2))" by (simp add: exact_ops_sel)
  note b = t[THEN conjunct2, THEN conjunct1, rule_format, OF tr]
  let ?s = "start_page\<lparr>cards := [waffle_card\<lparr>card_price := None\<rparr>]\<rparr>"
  have g1: "0 < length (cards ?s)" by simp
  have g2: "card_id (cards ?s ! 0) = Some ''Waffle''"
    using card_id_waffle by (simp add: card_id_def)
  have g6: "\<forall>item \<in> set (cart ?s). item_id item \<noteq> ''Waffle''"
    by (simp add: start_cards)
  have g7: "[] = (case card_price (cards ?s ! 0) of None \<Rightarrow> [] | Some x \<Rightarrow> x)"
    by simp
  have g8: "NaN = n_parseFloat exact_ops (replace_first ''$'' [] [])"
    by (simp add: exact_ops_sel parse_empty)
  have nt: "\<not> n_truthy exact_ops NaN" by (simp add: exact_ops_sel)
  note u = stored_price[OF g1 g2 h3 h4 h5 g6 g7 g8 refl,
      THEN conjunct2, THEN conjunct2, THEN conjunct1, rule_format, OF nt]
  have c: "price (last (cart (productGrid_click exact_ops ?s (Some [''button'']) (Some 0)))) = Num 0"
    using u by (simp only: exact_ops_sel)
  have p: "card_price (cards start_page ! 0) = Some ''$6.50''"
    by (simp add: start_cards waffle_card_def)
  from h2 p a b c show ?thesis by (intro conjI)
qed

text \<open>
  The specification strips a leading currency symbol only. The price text \<open>-$6.50\<close>
  has none, and does not parse, so the specification's price is 0; the code removes the
  \<open>$\<close> and stores -6.5.
\<close>

theorem stored_price_counterexample:
  "card_price refund_card = Some ''-$6.50'' \<and>
   map price (cart (productGrid_click exact_ops (start_page\<lparr>cards := [refund_card]\<rparr>)
       (Some [''button'']) (Some 0))) = [Num (- (13 / 2))] \<and>
   spec_productPrice exact_ops ''-$6.50'' = Num 0"
proof -
  let ?s = "start_page\<lparr>cards := [refund_card]\<rparr>"
  have id: "card_id refund_card = Some ''Refund''"
    by (simp add: card_id_def refund_card_def trim_def is_space_def)
  have pp: "productPrice exact_ops refund_card = Num (- (13 / 2))"
    by (simp add: productPrice_def refund_card_def exact_ops_sel parse_neg_650)
  have a: "map price (cart (productGrid_click exact_ops ?s (Some [''button'']) (Some 0))) =
      [Num (- (13 / 2))]"
    using grid_click_add[of 0 ?s "''Refund''" "[''button'']" exact_ops]
    by (simp add: id pp start_cards)
  have b: "spec_productPrice exact_ops ''-$6.50'' = Num 0"
    by (simp add: spec_productPrice_def strip_leading_currency_def exact_ops_sel parse_neg_dollar)
  have c: "card_price refund_card = Some ''-$6.50''" by (simp add: refund_card_def)
  from c a b show ?thesis by (intro conjI)
qed

text \<open>
  C8, as the code has it. For a non-empty cart and a modal that has its summary and its
  total element, the total the confirmation modal shows is the total the cart panel
  shows for that cart (in every state reached from an empty cart, the total the panel
  is showing), the modal has one row per entry in cart order, and its rows carry the
  names, quantities, unit prices and line totals of the panel's rows, in the same order.
\<close>

theorem modal_matches_panel:
  assumes "cart s \<noteq> []" and "modal_summary s \<noteq> None" and "modal_total s \<noteq> None"
    and "s' = showConfirmationModal ops s"
  shows "modal_total s' = panel_total (updateCart ops (cart s)) \<and>
         modal_total s' = Some (''$'' @ n_toFixed2 ops (grand_total ops (cart s))) \<and>
         (\<forall>s0 evs. cart s0 = [] \<and> s = run ops s0 evs \<longrightarrow>
            modal_total s' = panel_total (panel s)) \<and>
         modal_summary s' = Some (map (modal_item_row ops) (cart s)) \<and>
         panel_rows (updateCart ops (cart s)) = map (cart_item_row ops) (cart s) \<and>
         map (\<lambda>r. (m_name r, m_quantity r, m_price_per r, m_item_total r))
             (map (modal_item_row ops) (cart s)) =
           map (\<lambda>r. (row_name r, row_quantity r, row_price_per r, row_price_total r))
             (panel_rows (updateCart ops (cart s))) \<and>
         map m_name (map (modal_item_row ops) (cart s)) = map name (cart s) \<and>
         modal_display s' = ''flex''"
proof -
  note m = showConfirmationModal_present[OF assms(2,3), of ops]
  note p = updateCart_nonempty[OF assms(1), of ops]
  have t1: "modal_total s' = Some (''$'' @ n_toFixed2 ops (grand_total ops (cart s)))"
    by (simp add: assms(4) m)
  have t2: "modal_total s' = panel_total (updateCart ops (cart s))"
    by (simp add: t1 p)
  have t3: "modal_total s' = panel_total (panel s)" if "cart s0 = [] \<and> s = run ops s0 evs" for s0 evs
  proof -
    from that have "cart s0 = [] \<or> panel s0 = updateCart ops (cart s0)" by simp
    from panel_in_sync_run[OF this, of evs] that assms(1)
    have "panel s = updateCart ops (cart s)" by simp
    with t2 show ?thesis by simp
  qed
  have t4: "modal_summary s' = Some (map (modal_item_row ops) (cart s))"
    by (simp add: assms(4) m)
  have t5: "panel_rows (updateCart ops (cart s)) = map (cart_item_row ops) (cart s)"
    by (simp add: p)
  have t6: "map (\<lambda>r. (m_name r, m_quantity r, m_price_per r, m_item_total r))
             (map (modal_item_row ops) (cart s)) =
           map (\<lambda>r. (row_name r, row_quantity r, row_price_per r, row_price_total r))
             (panel_rows (updateCart ops (cart s)))"
    by (simp add: t5 modal_item_row_def cart_item_row_def Let_def)
  have t7: "map m_name (map (modal_item_row ops) (cart s)) = map name (cart s)"
    by (simp add: modal_item_row_def Let_def)
  have t8: "modal_display s' = ''flex''"
    by (simp add: assms(4) m)
  from t3 have t3': "\<forall>s0 evs. cart s0 = [] \<and> s = run ops s0 evs \<longrightarrow>
            modal_total s' = panel_total (panel s)" by blast
  from t2 t1 t3' t4 t5 t6 t7 t8 show ?thesis by (intro conjI)
qed

text \<open>
  On the example page both totals are \<open>$20.00\<close> and both lists of rows read Waffle,
  Creme Brulee.
\<close>

theorem modal_matches_panel_witness:
  "cart shop_page \<noteq> [] \<and>
   modal_summary shop_page \<noteq> None \<and>
   modal_total shop_page \<noteq> None \<and>
   modal_total (showConfirmationModal exact_ops shop_page) = Some ''$20.00'' \<and>
   panel_total (updateCart exact_ops (cart shop_page)) = Some ''$20.00'' \<and>
   panel_total (panel shop_page) = Some ''$20.00'' \<and>
   map m_name (map (modal_item_row exact_ops) (cart shop_page)) = [''Waffle'', ''Creme Brulee''] \<and>
   map row_name (panel_rows (updateCart exact_ops (cart shop_page))) = [''Waffle'', ''Creme Brulee''] \<and>
   modal_display (showConfirmationModal exact_ops shop_page) = ''flex''"
proof -
  have h1: "cart shop_page \<noteq> []" by (simp add: shop_cart)
  have h2: "modal_summary shop_page \<noteq> None" and h3: "modal_total shop_page \<noteq> None"
    by (simp_all add: shop_page_def)
  note t = modal_matches_panel[OF h1 h2 h3 refl, of exact_ops]
  have tf: "''$'' @ n_toFixed2 exact_ops (grand_total exact_ops (cart shop_page)) = ''$20.00''"
    by (simp only: grand_total_shop exact_ops_sel toFixed_20) simp
  have a: "modal_total (showConfirmationModal exact_ops shop_page) = Some ''$20.00''"
    using t[THEN conjunct2, THEN conjunct1] by (simp only: tf)
  have b: "panel_total (updateCart exact_ops (cart shop_page)) = Some ''$20.00''"
    using t[THEN conjunct1] by (simp only: a)
  have r: "cart start_page = [] \<and>
      shop_page = run exact_ops start_page [add_click 0, increment_click 0, add_click 1]"
    by (simp only: shop_page_reached start_cards(4))
  have c: "panel_total (panel shop_page) = Some ''$20.00''"
    using t[THEN conjunct2, THEN conjunct2, THEN conjunct1, rule_format, OF r]
    by (simp only: a)
  have d: "map m_name (map (modal_item_row exact_ops) (cart shop_page)) = [''Waffle'', ''Creme Brulee'']"
    using t[THEN conjunct2, THEN conjunct2, THEN conjunct2, THEN conjunct2, THEN conjunct2,
        THEN conjunct2, THEN conjunct1]
    by (simp add: shop_cart waffle_item_def brulee_item_def)
  have e: "map row_name (panel_rows (updateCart exact_ops (cart shop_page))) = [''Waffle'', ''Creme Brulee'']"
    using t[THEN conjunct2, THEN conjunct2, THEN conjunct2, THEN conjunct2, THEN conjunct1]
    by (simp add: shop_cart waffle_item_def brulee_item_def cart_item_row_def)
  note f = t[THEN conjunct2, THEN conjunct2, THEN conjunct2, THEN conjunct2, THEN conjunct2,
        THEN conjunct2, THEN conjunct2]
  from h1 h2 h3 a b c d e f show ?thesis by (intro conjI)
qed

text \<open>
  The specification speaks of every cart state. For the empty cart the modal shows
  \<open>$0.00\<close> and the panel shows no total; and without its total element the modal shows
  nothing while the panel shows \<open>$20.00\<close>.
\<close>

theorem modal_matches_panel_counterexample:
  "modal_total (showConfirmationModal exact_ops start_page) = Some ''$0.00'' \<and>
   panel_total (updateCart exact_ops (cart start_page)) = None \<and>
   modal_total (showConfirmationModal exact_ops (shop_page\<lparr>modal_total := None\<rparr>)) = None \<and>
   panel_total (updateCart exact_ops (cart (shop_page\<lparr>modal_total := None\<rparr>))) = Some ''$20.00''"
proof -
  have m: "modal_summary start_page \<noteq> None" "modal_total start_page \<noteq> None"
    by (simp_all add: start_page_def)
  have a: "modal_total (showConfirmationModal exact_ops start_page) = Some ''$0.00''"
    by (simp add: showConfirmationModal_present[OF m] start_cards grand_total_def
        exact_ops_sel toFixed_0)
  have b: "panel_total (updateCart exact_ops (cart start_page)) = None"
    by (simp add: start_cards updateCart_empty)
  have c: "modal_total (showConfirmationModal exact_ops (shop_page\<lparr>modal_total := None\<rparr>)) = None"
    by (simp add: showConfirmationModal_def)
  have ne: "cart shop_page \<noteq> []" by (simp add: shop_cart)
  have d: "panel_total (updateCart exact_ops (cart (shop_page\<lparr>modal_total := None\<rparr>))) =
      Some ''$20.00''"
    using updateCart_nonempty[OF ne, of exact_ops]
    by (simp add: grand_total_shop exact_ops_sel toFixed_20)
  from a b c d show ?thesis by (intro conjI)
qed

text \<open>
  C9, as the code has it. The image stored in a new entry is absent when the card has no
  \<open>img\<close> element or its source is empty. Otherwise it is the source with the first
  occurrence of \<open>-desktop\<close> removed, wherever it occurs: the source itself when
  \<open>-desktop\<close> does not occur in it, and the specification's URL when the only occurrence
  is the suffix.
\<close>

theorem stored_image:
  assumes "i < length (cards s)" and "card_id (cards s ! i) = Some pid" and "pid \<noteq> []"
    and "''increment-btn'' \<notin> set classList" and "''decrement-btn'' \<notin> set classList"
    and "\<forall>item \<in> set (cart s). item_id item \<noteq> pid"
    and "s' = productGrid_click ops s (Some classList) (Some i)"
  shows "(img_src (cards s ! i) = None \<or> img_src (cards s ! i) = Some [] \<longrightarrow>
            item_image (last (cart s')) = None) \<and>
         (\<forall>u. img_src (cards s ! i) = Some u \<and> u \<noteq> [] \<longrightarrow>
            item_image (last (cart s')) = Some (replace_first ''-desktop'' [] u) \<and>
            (\<not> sublist ''-desktop'' u \<longrightarrow> item_image (last (cart s')) = Some u) \<and>
            (\<forall>a b. u = a @ ''-desktop'' @ b \<and> \<not> sublist ''-desktop'' (a @ ''-deskto'') \<longrightarrow>
               item_image (last (cart s')) = Some (a @ b)) \<and>
            (\<forall>a. u = a @ ''-desktop'' \<and> \<not> sublist ''-desktop'' (a @ ''-deskto'') \<longrightarrow>
               item_image (last (cart s')) = spec_productImage (Some u)))"
proof -
  have l: "item_image (last (cart s')) = productImage (cards s ! i)"
    by (simp add: assms(7) grid_click_add[OF assms(1-6), of ops])
  have n: "item_image (last (cart s')) = None"
    if "img_src (cards s ! i) = None \<or> img_src (cards s ! i) = Some []"
    using that by (auto simp: l productImage_def)
  have f: "replace_first ''-desktop'' [] (a @ ''-desktop'' @ b) = a @ b"
    if "\<not> sublist ''-desktop'' (a @ ''-deskto'')" for a b
    using replace_first_first[of "''-desktop''" a "[]" b] that by simp
  have u: "item_image (last (cart s')) = Some (replace_first ''-desktop'' [] u) \<and>
        (\<not> sublist ''-desktop'' u \<longrightarrow> item_image (last (cart s')) = Some u) \<and>
        (\<forall>a b. u = a @ ''-desktop'' @ b \<and> \<not> sublist ''-desktop'' (a @ ''-deskto'') \<longrightarrow>
           item_image (last (cart s')) = Some (a @ b)) \<and>
        (\<forall>a. u = a @ ''-desktop'' \<and> \<not> sublist ''-desktop'' (a @ ''-deskto'') \<longrightarrow>
           item_image (last (cart s')) = spec_productImage (Some u))"
    if su: "img_src (cards s ! i) = Some u \<and> u \<noteq> []" for u
  proof (intro conjI allI impI)
    show e: "item_image (last (cart s')) = Some (replace_first ''-desktop'' [] u)"
      using su by (simp add: l productImage_def)
    show "item_image (last (cart s')) = Some u" if "\<not> sublist ''-desktop'' u"
      using that by (simp add: e replace_first_absent)
    show "item_image (last (cart s')) = Some (a @ b)"
      if "u = a @ ''-desktop'' @ b \<and> \<not> sublist ''-desktop'' (a @ ''-deskto'')" for a b
      using that f[of a b] by (simp add: e)
    show "item_image (last (cart s')) = spec_productImage (Some u)"
      if "u = a @ ''-desktop'' \<and> \<not> sublist ''-desktop'' (a @ ''-deskto'')" for a
    proof -
      from that f[of a "[]"] have "replace_first ''-desktop'' [] u = a" by simp
      moreover from that have "remove_desktop_suffix u = a"
        by (simp add: remove_desktop_suffix_def suffix_def)
      ultimately show ?thesis using su by (simp add: e spec_productImage_def)
    qed
  qed
  from n u show ?thesis by blast
qed

text \<open>
  On the example page: \<open>images/image-waffle-desktop.jpg\<close> is stored as
  \<open>images/image-waffle.jpg\<close>, and an empty source is stored as no image.
\<close>

theorem stored_image_witness:
  "card_id (cards start_page ! 0) = Some ''Waffle'' \<and>
   img_src (cards start_page ! 0) = Some ''images/image-waffle-desktop.jpg'' \<and>
   item_image (last (cart (productGrid_click exact_ops start_page (Some [''button'']) (Some 0)))) =
     Some ''images/image-waffle.jpg'' \<and>
   item_image (last (cart (productGrid_click exact_ops
       (start_page\<lparr>cards := [waffle_card\<lparr>img_src := Some []\<rparr>]\<rparr>) (Some [''button'']) (Some 0)))) =
     None"
proof -
  have h1: "0 < length (cards start_page)" by (simp add: start_cards)
  have h2: "card_id (cards start_page ! 0) = Some ''Waffle''"
    by (simp add: start_cards card_id_waffle)
  have h3: "''Waffle'' \<noteq> []" by simp
  have h4: "''increment-btn'' \<notin> set [''button'']" by simp
  have h5: "''decrement-btn'' \<notin> set [''button'']" by simp
  have h6: "\<forall>item \<in> set (cart start_page). item_id item \<noteq> ''Waffle''"
    by (simp add: start_cards)
  have src: "img_src (cards start_page ! 0) = Some ''images/image-waffle-desktop.jpg''"
    by (simp add: start_cards waffle_card_def)
  have su: "img_src (cards start_page ! 0) = Some ''images/image-waffle-desktop.jpg'' \<and>
      ''images/image-waffle-desktop.jpg'' \<noteq> []"
    using src by simp
  note t = stored_image[OF h1 h2 h3 h4 h5 h6 refl, of exact_ops, THEN conjunct2, rule_format,
      OF su, THEN conjunct1]
  have a: "item_image (last (cart (productGrid_click exact_ops start_page (Some [''button''])
      (Some 0)))) = Some ''images/image-waffle.jpg''"
    using t by simp
  let ?s = "start_page\<lparr>cards := [waffle_card\<lparr>img_src := Some []\<rparr>]\<rparr>"
  have g1: "0 < length (cards ?s)" by simp
  have g2: "card_id (cards ?s ! 0) = Some ''Waffle''"
    using card_id_waffle by (simp add: card_id_def)
  have g6: "\<forall>item \<in> set (cart ?s). item_id item \<noteq> ''Waffle''"
    by (simp add: start_cards)
  have e: "img_src (cards ?s ! 0) = None \<or> img_src (cards ?s ! 0) = Some []" by simp
  note b = stored_image[OF g1 g2 h3 h4 h5 g6 refl, of exact_ops, THEN conjunct1, rule_format, OF e]
  from h2 src a b show ?thesis by (intro conjI)
qed

text \<open>
  The specification removes a \<open>-desktop\<close> suffix and otherwise keeps the URL. Neither
  URL below ends in \<open>-desktop\<close>, so it keeps both; the code removes the first
  occurrence, in the host name of the first and before the extension of the second.
\<close>

theorem stored_image_counterexample:
  "img_src mirror_card = Some ''https://my-desktop.example/img/waffle-desktop.jpg'' \<and>
   map item_image (cart (productGrid_click exact_ops (start_page\<lparr>cards := [mirror_card]\<rparr>)
       (Some [''button'']) (Some 0))) = [Some ''https://my.example/img/waffle-desktop.jpg''] \<and>
   spec_productImage (img_src mirror_card) =
     Some ''https://my-desktop.example/img/waffle-desktop.jpg'' \<and>
   productImage waffle_card = Some ''images/image-waffle.jpg'' \<and>
   spec_productImage (img_src waffle_card) = Some ''images/image-waffle-desktop.jpg''"
proof -
  let ?s = "start_page\<lparr>cards := [mirror_card]\<rparr>"
  have id: "card_id mirror_card = Some ''Waffle''"
    by (simp add: card_id_def mirror_card_def trim_def is_space_def)
  have pi: "productImage mirror_card = Some ''https://my.example/img/waffle-desktop.jpg''"
    by (simp add: productImage_def mirror_card_def)
  have a: "map item_image (cart (productGrid_click exact_ops ?s (Some [''button'']) (Some 0))) =
      [Some ''https://my.example/img/waffle-desktop.jpg'']"
    using grid_click_add[of 0 ?s "''Waffle''" "[''button'']" exact_ops]
    by (simp add: id pi start_cards)
  have b: "spec_productImage (img_src mirror_card) =
      Some ''https://my-desktop.example/img/waffle-desktop.jpg''"
    by (simp add: spec_productImage_def remove_desktop_suffix_def mirror_card_def suffix_def)
  have c: "spec_productImage (img_src waffle_card) = Some ''images/image-waffle-desktop.jpg''"
    by (simp add: spec_productImage_def remove_desktop_suffix_def waffle_card_def suffix_def)
  have d: "img_src mirror_card = Some ''https://my-desktop.example/img/waffle-desktop.jpg''"
    by (simp add: mirror_card_def)
  from d a b productImage_waffle c show ?thesis by (intro conjI)
qed

text \<open>
  C10. Showing the confirmation modal changes neither the cart nor the cards nor the
  panel, and so does a click on the confirm-order control; when the modal's summary or
  total element is missing, \<open>showConfirmationModal\<close> returns at once and the whole state
  is as before.
\<close>

theorem confirm_keeps_cart:
  "cart (showConfirmationModal ops s) = cart s \<and>
   cards (showConfirmationModal ops s) = cards s \<and>
   panel (showConfirmationModal ops s) = panel s \<and>
   cart (step ops s (PanelClick None classList)) = cart s \<and>
   (modal_summary s = None \<or> modal_total s = None \<longrightarrow> showConfirmationModal ops s = s)"
  by (simp add: showConfirmationModal_def cartSection_click_def split: prod.splits)

text \<open>
  On the example page, with and without the modal's total element, the cart after the
  confirm click is the cart before it.
\<close>

theorem confirm_keeps_cart_witness:
  "cart (step exact_ops shop_page confirm_click) = [waffle_item 2, brulee_item 1] \<and>
   modal_total (shop_page\<lparr>modal_total := None\<rparr>) = None \<and>
   showConfirmationModal exact_ops (shop_page\<lparr>modal_total := None\<rparr>) =
     shop_page\<lparr>modal_total := None\<rparr> \<and>
   cart (step exact_ops (shop_page\<lparr>modal_total := None\<rparr>) confirm_click) =
     [waffle_item 2, brulee_item 1]"
proof -
  have h: "modal_summary (shop_page\<lparr>modal_total := None\<rparr>) = None \<or>
      modal_total (shop_page\<lparr>modal_total := None\<rparr>) = None"
    by simp
  from confirm_keeps_cart[of exact_ops shop_page "[''confirm-order-btn'']"]
  have a: "cart (step exact_ops shop_page confirm_click) = [waffle_item 2, brulee_item 1]"
    by (simp add: confirm_click_def shop_cart)
  from confirm_keeps_cart[of exact_ops "shop_page\<lparr>modal_total := None\<rparr>" "[''confirm-order-btn'']"] h
  have b: "showConfirmationModal exact_ops (shop_page\<lparr>modal_total := None\<rparr>) =
      shop_page\<lparr>modal_total := None\<rparr>"
    and c: "cart (step exact_ops (shop_page\<lparr>modal_total := None\<rparr>) confirm_click) =
      [waffle_item 2, brulee_item 1]"
    by (simp_all add: confirm_click_def shop_cart)
  show ?thesis using a b c by simp
qed

end
